theory Spec2Isabelle
  imports Complex_Main "HOL-Library.Sublist"
begin

section \<open>Document Intelligence Service: the extraction pipeline\<close>

text \<open>
  A shallow embedding of \<^verbatim>\<open>src/cloud-run/document-intelligence/main.py\<close>.

  Conventions of the embedding:
  \<^item> a Python \<^verbatim>\<open>str\<close> is a \<open>string\<close>; one \<open>char\<close> stands for one code point
    (code points below 256), so \<open>length\<close> is Python's \<^verbatim>\<open>len\<close>;
  \<^item> \<^verbatim>\<open>bytes\<close> is a list of 8-bit characters as well;
  \<^item> a Python float is represented by a rational number: the float that a decimal literal
    of the source denotes by the fraction of that literal (\<^verbatim>\<open>0.7\<close> by \<open>7/10\<close>),
    every other float by its exact value. The representation keeps the order, so a
    comparison of floats is the comparison of the rationals; the arithmetic on floats
    rounds, so it is not the arithmetic of the rationals but a field of the environment;
  \<^item> a raised exception is a value \<open>Inl e\<close> of a sum type, \<open>str e\<close> its message;
  \<^item> the third-party clients and container readers (Document AI, Cloud Vision, the two
    generative endpoints, PyMuPDF, python-pptx, python-docx, the codecs, the clock) are
    fields of an environment record; a network service may answer differently at every
    call, so its answer depends on the log of calls made so far;
  \<^item> what a reader returns is data, except for the reads that the libraries compute on
    access and that may raise: there the data holds the outcome of the read, and the
    extractor has a failing branch;
  \<^item> every function that calls a service threads that log and appends one entry per
    call, which is how call counts are stated;
  \<^item> \<^verbatim>\<open>print\<close> statements, and the request id where it is used only in them, are
    left out.
\<close>

subsection \<open>Python string operations\<close>

type_synonym bytes = string

text \<open>\<^verbatim>\<open>str.isspace\<close> on the code points below 256.\<close>

definition is_space :: "char \<Rightarrow> bool" where
  "is_space c = (let n = (of_char c :: nat) in
     (9 \<le> n \<and> n \<le> 13) \<or> (28 \<le> n \<and> n \<le> 32) \<or> n = 133 \<or> n = 160)"

text \<open>\<^verbatim>\<open>s.strip()\<close>\<close>

definition strip :: "string \<Rightarrow> string" where
  "strip s = rev (dropWhile is_space (rev (dropWhile is_space s)))"

definition lower_char :: "char \<Rightarrow> char" where
  "lower_char c = (let n = (of_char c :: nat) in
     if (65 \<le> n \<and> n \<le> 90) \<or> (192 \<le> n \<and> n \<le> 222 \<and> n \<noteq> 215)
     then char_of (n + 32) else c)"

text \<open>\<^verbatim>\<open>s.lower()\<close>\<close>

definition lower :: "string \<Rightarrow> string" where
  "lower s = map lower_char s"

text \<open>
  Splitting at every character that satisfies \<open>P\<close>: \<^verbatim>\<open>s.split('.')\<close> is
  \<open>split_where (\<lambda>c. c = CHR ''.'') s\<close>. The result is never empty.
\<close>

fun split_where :: "(char \<Rightarrow> bool) \<Rightarrow> string \<Rightarrow> string list" where
  "split_where P [] = [[]]"
| "split_where P (c # cs) =
     (if P c then [] # split_where P cs
      else (case split_where P cs of
              [] \<Rightarrow> [[c]]
            | w # ws \<Rightarrow> (c # w) # ws))"

text \<open>\<^verbatim>\<open>s.split()\<close>: the maximal runs of non-whitespace characters.\<close>

definition split_ws :: "string \<Rightarrow> string list" where
  "split_ws s = filter (\<lambda>w. w \<noteq> []) (split_where is_space s)"

text \<open>\<^verbatim>\<open>sub in s\<close>\<close>

fun contains :: "string \<Rightarrow> string \<Rightarrow> bool" where
  "contains sub [] = (sub = [])"
| "contains sub (c # cs) = (prefix sub (c # cs) \<or> contains sub cs)"

text \<open>\<^verbatim>\<open>sep.join(xs)\<close>\<close>

fun join :: "string \<Rightarrow> string list \<Rightarrow> string" where
  "join sep [] = []"
| "join sep [x] = x"
| "join sep (x # y # ys) = x @ sep @ join sep (y # ys)"

definition nl :: string where
  "nl = [CHR 0x0A]"

text \<open>\<^verbatim>\<open>s[start:end]\<close> for integers of either sign.\<close>

definition slice_index :: "nat \<Rightarrow> int \<Rightarrow> nat" where
  "slice_index n i = (if i < 0 then nat (max 0 (int n + i)) else min (nat i) n)"

definition slice :: "string \<Rightarrow> int \<Rightarrow> int \<Rightarrow> string" where
  "slice s start stop =
     (let a = slice_index (length s) start; b = slice_index (length s) stop
      in take (b - a) (drop a s))"

text \<open>\<^verbatim>\<open>str(n)\<close> for an integer.\<close>

fun str_nat :: "nat \<Rightarrow> string" where
  "str_nat n = (if n < 10 then [char_of (48 + n)]
                else str_nat (n div 10) @ [char_of (48 + n mod 10)])"

definition str_int :: "int \<Rightarrow> string" where
  "str_int i = (if i < 0 then CHR ''-'' # str_nat (nat (- i)) else str_nat (nat i))"

text \<open>\<^verbatim>\<open>d.get(key, default)\<close> on a dictionary entry that may be absent.\<close>

definition get_default :: "'a option \<Rightarrow> 'a \<Rightarrow> 'a" where
  "get_default entry d = (case entry of None \<Rightarrow> d | Some v \<Rightarrow> v)"

subsection \<open>Data model\<close>

datatype exn = Exn (str: string)

record text_block =
  tb_text :: string
  tb_page :: int
  tb_confidence :: rat
  tb_type :: string

record table =
  t_rows :: "string list list"
  t_page :: int
  t_confidence :: rat

text \<open>
  An entry of \<^verbatim>\<open>images\<close> is a dictionary with some of the keys \<^verbatim>\<open>page\<close>,
  \<^verbatim>\<open>type\<close>, \<^verbatim>\<open>data_url\<close>, \<^verbatim>\<open>caption\<close>, \<^verbatim>\<open>ocr_text\<close>.
\<close>

record image =
  img_page :: "int option"
  img_type :: "string option"
  img_data_url :: "string option"
  img_caption :: "string option"
  img_ocr_text :: "string option"

text \<open>
  The dictionary an extractor returns. \<^verbatim>\<open>build_canonical_model\<close> reads every key
  with \<^verbatim>\<open>.get\<close> and a default, so a key may be absent.
\<close>

record extraction_result =
  r_method :: "string option"
  r_confidence :: "rat option"
  r_text_blocks :: "text_block list option"
  r_tables :: "table list option"
  r_images :: "image list option"
  r_page_count :: "int option"
  r_raw_text :: "string option"

record extraction_info =
  ex_method :: string
  ex_confidence :: rat
  ex_timestamp :: string

record structure_info =
  st_page_count :: int
  st_tables :: "table list"
  st_images :: "image list"

record content_info =
  ct_text_blocks :: "text_block list"
  ct_full_text :: string

record stats_info =
  total_chars :: nat
  total_words :: nat
  total_blocks :: nat
  total_tables :: nat
  total_images :: nat

record canonical_document =
  cd_id :: string
  cd_filename :: string
  cd_file_type :: string
  cd_file_size :: nat
  cd_extraction :: extraction_info
  cd_structure :: structure_info
  cd_content :: content_info
  cd_stats :: stats_info

subsection \<open>Canonical model builder\<close>

text \<open>
  \<^verbatim>\<open>build_canonical_model\<close>. The first argument is the value that
  \<^verbatim>\<open>time.strftime('%Y-%m-%dT%H:%M:%SZ')\<close> returns at the call, the only thing
  the function reads besides its arguments.
\<close>

definition build_canonical_model ::
  "string \<Rightarrow> extraction_result \<Rightarrow> string \<Rightarrow> string \<Rightarrow> nat \<Rightarrow> string \<Rightarrow> canonical_document" where
  "build_canonical_model now result filename file_type file_size request_id =
    (let text_blocks = get_default (r_text_blocks result) [];
         full_text = get_default (r_raw_text result) ''''
     in \<lparr> cd_id = request_id,
          cd_filename = filename,
          cd_file_type = file_type,
          cd_file_size = file_size,
          cd_extraction = \<lparr> ex_method = get_default (r_method result) ''unknown'',
                            ex_confidence = get_default (r_confidence result) 0,
                            ex_timestamp = now \<rparr>,
          cd_structure = \<lparr> st_page_count = get_default (r_page_count result) 1,
                           st_tables = get_default (r_tables result) [],
                           st_images = get_default (r_images result) [] \<rparr>,
          cd_content = \<lparr> ct_text_blocks = text_blocks,
                         ct_full_text = full_text \<rparr>,
          cd_stats = \<lparr> total_chars = length full_text,
                       total_words = length (split_ws full_text),
                       total_blocks = length text_blocks,
                       total_tables = length (get_default (r_tables result) []),
                       total_images = length (get_default (r_images result) []) \<rparr> \<rparr>)"

subsection \<open>Format detector\<close>

text \<open>The extension \<^verbatim>\<open>detect_file_type\<close> computes in its first line.\<close>

definition file_ext :: "string \<Rightarrow> string" where
  "file_ext filename =
     (if CHR ''.'' \<in> set filename
      then last (split_where (\<lambda>c. c = CHR ''.'') (lower filename)) else '''')"

definition detect_file_type :: "string \<Rightarrow> string \<Rightarrow> string" where
  "detect_file_type filename mimetype =
    (let ext = file_ext filename
     in if ext = ''pdf'' \<or> contains ''pdf'' mimetype then ''pdf''
        else if ext \<in> set [''pptx'', ''ppt''] \<or> contains ''presentation'' mimetype
                \<or> contains ''powerpoint'' mimetype then ''pptx''
        else if ext \<in> set [''docx'', ''doc''] \<or> contains ''word'' mimetype
                \<or> contains ''document'' mimetype then ''docx''
        else if ext = ''txt'' \<or> contains ''text/plain'' mimetype then ''txt''
        else if ext \<in> set [''png'', ''jpg'', ''jpeg'', ''webp'', ''gif''] then ''image''
        else ''unknown'')"

subsection \<open>Environment: configuration, clients and readers\<close>

text \<open>One entry per invocation of an engine or renderer.\<close>

datatype call =
    DocumentAI
  | FitzOpen
  | Vision
  | VertexGemini
  | OpenAI
  | Thumbnail

type_synonym log = "call list"

text \<open>What the Document AI client returns, as far as the extractor reads it.\<close>

record text_segment =
  seg_start_index :: int
  seg_end_index :: int

record layout =
  lay_text_segments :: "text_segment list"
  lay_confidence :: rat

record da_table =
  tbl_header_rows :: "layout list list"
  tbl_body_rows :: "layout list list"

record da_page =
  dp_page_number :: int
  dp_paragraphs :: "layout list"
  dp_tables :: "da_table list"

record da_document =
  doc_pages :: "da_page list"
  doc_text :: string

text \<open>
  The reply of the Vertex endpoint: \<open>vr_parts\<close> is the outcome of
  \<^verbatim>\<open>resp.json()\<close> and of the walk to the first candidate's parts (which raises on
  a malformed body), as the list of \<^verbatim>\<open>p.get('text', '')\<close>.
\<close>

record vertex_response =
  vr_status_code :: int
  vr_text :: string
  vr_parts :: "exn + string list"

text \<open>
  The reply of the chat-completions API: \<open>or_content\<close> is the outcome of
  \<^verbatim>\<open>response.json()['choices'][0]['message']['content']\<close>.
\<close>

record openai_response =
  or_status_code :: int
  or_content :: "exn + string"

text \<open>
  A page of an opened PDF: the outcome of \<^verbatim>\<open>page.get_text("text")\<close>; for each
  entry of \<^verbatim>\<open>page.get_images()\<close> the outcome of the conversion to PNG bytes;
  the page width; the outcome of rasterising the page at a scale and encoding it as a
  base64 JPEG; the outcome of rasterising it at twice its size as PNG bytes.
\<close>

record pdf_page =
  pg_get_text :: "exn + string"
  pg_get_images :: "(exn + bytes) list"
  pg_rect_width :: rat
  pg_render_jpeg :: "rat \<Rightarrow> exn + string"
  pg_get_pixmap :: "exn + bytes"

text \<open>
  What reading \<^verbatim>\<open>shape.image\<close> gives: the shape has no such attribute
  (\<^verbatim>\<open>hasattr\<close> is false); or the property raises an exception other than
  \<^verbatim>\<open>AttributeError\<close>, as python-pptx does with \<^verbatim>\<open>ValueError\<close> for a linked
  picture, and \<^verbatim>\<open>hasattr\<close> lets it through; or it returns the image, with the
  outcome of \<^verbatim>\<open>shape.image.blob\<close>.
\<close>

datatype shape_image =
    NoImage
  | ImageRaises exn
  | HasImage "exn + bytes"

text \<open>
  A shape of a slide. \<open>sl_notes_text\<close> is the text of the notes text frame when the
  slide has a notes slide with one.
\<close>

record pptx_shape =
  sh_has_text_frame :: bool
  sh_paragraphs :: "string list"
  sh_has_table :: bool
  sh_table_rows :: "string list list"
  sh_image :: shape_image

record pptx_slide =
  sl_shapes :: "pptx_shape list"
  sl_notes_text :: "string option"

text \<open>
  A paragraph of a document: its text and the outcome of reading
  \<^verbatim>\<open>para.style.name\<close> for the call of \<^verbatim>\<open>startswith\<close>: the name of the
  style, or the exception raised when the style has no name (the name is
  \<^verbatim>\<open>None\<close>).
\<close>

record docx_paragraph =
  dpar_text :: string
  dpar_style_name :: "exn + string"

record docx_rel =
  rel_target_ref :: string
  rel_blob :: "exn + bytes"

record docx_document =
  dx_paragraphs :: "docx_paragraph list"
  dx_tables :: "string list list list"
  dx_rels :: "docx_rel list"

text \<open>Module-level configuration, read from the process environment at start-up.\<close>

record config =
  DOCUMENT_AI_PROCESSOR_ID :: string
  OPENAI_API_KEY :: string
  VERTEX_GEMINI_OCR_ENABLED :: bool
  MAX_PAGE_THUMBNAILS :: int
  THUMBNAIL_MAX_WIDTH :: int

text \<open>
  The network services. \<open>google_auth_token\<close> is the token after
  \<^verbatim>\<open>creds.refresh\<close> (the empty string for no token); \<open>requests_get\<close> is
  \<^verbatim>\<open>requests.get\<close> followed by \<^verbatim>\<open>raise_for_status\<close>.
\<close>

record services =
  documentai_process :: "log \<Rightarrow> bytes \<Rightarrow> exn + da_document"
  vision_text_detection :: "log \<Rightarrow> bytes \<Rightarrow> exn + string list"
  google_auth_token :: "log \<Rightarrow> exn + string"
  vertex_post :: "log \<Rightarrow> bytes \<Rightarrow> exn + vertex_response"
  openai_post :: "log \<Rightarrow> bytes \<Rightarrow> exn + openai_response"
  requests_get :: "string \<Rightarrow> exn + bytes"

text \<open>
  The local readers and codecs, functions of the bytes: \<^verbatim>\<open>fitz.open\<close>,
  \<^verbatim>\<open>Presentation\<close>, \<^verbatim>\<open>Document\<close>, \<^verbatim>\<open>bytes.decode(encoding)\<close>
  (\<open>None\<close> when it raises) and \<^verbatim>\<open>bytes.decode('utf-8', errors='ignore')\<close>.
\<close>

record readers =
  fitz_open :: "bytes \<Rightarrow> exn + pdf_page list"
  Presentation :: "bytes \<Rightarrow> exn + pptx_slide list"
  Document :: "bytes \<Rightarrow> exn + docx_document"
  decode :: "string \<Rightarrow> bytes \<Rightarrow> string option"
  decode_ignore :: "bytes \<Rightarrow> string"

text \<open>
  The arithmetic of the interpreter on floats, which rounds: \<^verbatim>\<open>sum(xs)\<close>,
  \<^verbatim>\<open>x / y\<close>, \<^verbatim>\<open>x - y\<close> and \<^verbatim>\<open>x * y\<close>.
\<close>

record float_ops =
  float_sum :: "rat list \<Rightarrow> rat"
  float_div :: "rat \<Rightarrow> rat \<Rightarrow> rat"
  float_sub :: "rat \<Rightarrow> rat \<Rightarrow> rat"
  float_mul :: "rat \<Rightarrow> rat \<Rightarrow> rat"

text \<open>
  The per-request readings: the UUID, \<^verbatim>\<open>time.time()\<close> at the start and at the
  end of the request, and the formatted time of \<^verbatim>\<open>time.strftime\<close>.
\<close>

record env =
  cfg :: config
  svc :: services
  rdr :: readers
  flt :: float_ops
  uuid4 :: string
  time_start :: rat
  time_end :: rat
  time_strftime :: string

subsection \<open>Recognition fallback\<close>

text \<open>\<^verbatim>\<open>ocr_with_vertex_gemini\<close>, entered with the log \<open>lg\<close>.\<close>

definition ocr_with_vertex_gemini :: "env \<Rightarrow> bytes \<Rightarrow> log \<Rightarrow> exn + string option" where
  "ocr_with_vertex_gemini e image_data lg =
    (case google_auth_token (svc e) lg of
       Inl x \<Rightarrow> Inl x
     | Inr token \<Rightarrow>
        if token = '''' then Inl (Exn ''Failed to acquire Google auth token'')
        else (case vertex_post (svc e) lg image_data of
           Inl x \<Rightarrow> Inl x
         | Inr resp \<Rightarrow>
            if vr_status_code resp \<noteq> 200
            then Inl (Exn (''Vertex Gemini error '' @ str_int (vr_status_code resp) @ '': ''
                           @ take 500 (vr_text resp)))
            else (case vr_parts resp of
               Inl x \<Rightarrow> Inl x
             | Inr parts \<Rightarrow>
                (let text = strip (concat parts)
                 in Inr (if text \<noteq> '''' then Some text else None)))))"

text \<open>\<^verbatim>\<open>ocr_with_openai\<close>\<close>

definition ocr_with_openai :: "env \<Rightarrow> bytes \<Rightarrow> log \<Rightarrow> exn + string option" where
  "ocr_with_openai e image_data lg =
    (case openai_post (svc e) lg image_data of
       Inl x \<Rightarrow> Inl x
     | Inr response \<Rightarrow>
        if or_status_code response = 200
        then (case or_content response of
                Inl x \<Rightarrow> Inl x
              | Inr content \<Rightarrow> Inr (Some (strip content)))
        else Inr None)"

text \<open>
  The two generative tiers, which \<^verbatim>\<open>ocr_image\<close> runs after Cloud Vision gave no
  text. The source writes this block twice, once in the \<^verbatim>\<open>try\<close> block after an
  empty answer of Cloud Vision and once in the handler of a failure of Cloud Vision; the
  two copies differ only in what they print. Every exception of a tier is caught by the
  \<^verbatim>\<open>try\<close> around its call.
\<close>

definition generative_tiers :: "env \<Rightarrow> bytes \<Rightarrow> log \<Rightarrow> (exn + string option) \<times> log" where
  "generative_tiers e image_data lg1 =
    (let (found, lg2) =
           (if VERTEX_GEMINI_OCR_ENABLED (cfg e) then
              (case ocr_with_vertex_gemini e image_data lg1 of
                 Inr (Some text) \<Rightarrow>
                   if text \<noteq> '''' then (Some text, lg1 @ [VertexGemini])
                   else (None, lg1 @ [VertexGemini])
               | Inr None \<Rightarrow> (None, lg1 @ [VertexGemini])
               | Inl x \<Rightarrow> (None, lg1 @ [VertexGemini]))
            else (None, lg1))
     in case found of
          Some text \<Rightarrow> (Inr (Some text), lg2)
        | None \<Rightarrow>
           if OPENAI_API_KEY (cfg e) \<noteq> '''' then
             (case ocr_with_openai e image_data lg2 of
                Inr r \<Rightarrow> (Inr r, lg2 @ [OpenAI])
              | Inl x \<Rightarrow> (Inr None, lg2 @ [OpenAI]))
           else (Inr None, lg2))"

text \<open>
  \<^verbatim>\<open>ocr_image\<close>. The result is a sum, so that an exception leaving the function
  would be a value \<open>Inl\<close>.
\<close>

definition ocr_image :: "env \<Rightarrow> bytes \<Rightarrow> log \<Rightarrow> (exn + string option) \<times> log" where
  "ocr_image e image_data lg =
    (let lg1 = lg @ [Vision] in
     case vision_text_detection (svc e) lg image_data of
       Inr text_annotations \<Rightarrow>
         if text_annotations \<noteq> [] then (Inr (Some (strip (hd text_annotations))), lg1)
         else generative_tiers e image_data lg1
     | Inl x \<Rightarrow> generative_tiers e image_data lg1)"

subsection \<open>PDF extraction\<close>

text \<open>
  \<^verbatim>\<open>get_text_from_layout\<close>. \<^verbatim>\<open>int(segment.start_index) if segment.start_index else 0\<close>
  is the start index itself.
\<close>

definition get_text_from_layout :: "layout \<Rightarrow> string \<Rightarrow> string" where
  "get_text_from_layout lay full_text =
     strip (concat (map (\<lambda>segment.
        slice full_text
          (if seg_start_index segment \<noteq> 0 then seg_start_index segment else 0)
          (seg_end_index segment))
       (lay_text_segments lay)))"

definition da_paragraph_block :: "string \<Rightarrow> int \<Rightarrow> layout \<Rightarrow> text_block" where
  "da_paragraph_block full_text page_num paragraph =
     \<lparr> tb_text = get_text_from_layout paragraph full_text,
       tb_page = page_num,
       tb_confidence = (if lay_confidence paragraph \<noteq> 0 then lay_confidence paragraph
                        else 9/10),
       tb_type = ''paragraph'' \<rparr>"

text \<open>
  \<^verbatim>\<open>xs + ys\<close> on two repeated fields of a message of the Document AI client. The
  fields are proto-plus sequences, which define no addition, so the expression raises
  \<^verbatim>\<open>TypeError\<close> whatever the fields hold.
\<close>

definition repeated_add :: "'a list \<Rightarrow> 'a list \<Rightarrow> exn + 'a list" where
  "repeated_add xs ys = Inl (Exn ''unsupported operand type(s) for +'')"

text \<open>
  \<^verbatim>\<open>for table in page.tables\<close>: the rows are read from
  \<^verbatim>\<open>table.header_rows + table.body_rows\<close>.
\<close>

fun da_tables_loop :: "string \<Rightarrow> int \<Rightarrow> da_table list \<Rightarrow> table list \<Rightarrow> exn + table list" where
  "da_tables_loop full_text page_num [] tables = Inr tables"
| "da_tables_loop full_text page_num (tbl # tbls) tables =
    (case repeated_add (tbl_header_rows tbl) (tbl_body_rows tbl) of
       Inl x \<Rightarrow> Inl x
     | Inr rows \<Rightarrow>
        da_tables_loop full_text page_num tbls
          (tables @
             [\<lparr> t_rows = map (\<lambda>row. map (\<lambda>cell. get_text_from_layout cell full_text) row) rows,
                t_page = page_num,
                t_confidence = 9/10 \<rparr>]))"

text \<open>\<^verbatim>\<open>for page in document.pages\<close>: the paragraphs of the page, then its tables.\<close>

fun da_pages_loop ::
  "string \<Rightarrow> da_page list \<Rightarrow> text_block list \<Rightarrow> table list
     \<Rightarrow> exn + (text_block list \<times> table list)" where
  "da_pages_loop full_text [] text_blocks tables = Inr (text_blocks, tables)"
| "da_pages_loop full_text (page # pages) text_blocks tables =
    (let text_blocks1 = text_blocks @
           map (da_paragraph_block full_text (dp_page_number page)) (dp_paragraphs page)
     in case da_tables_loop full_text (dp_page_number page) (dp_tables page) tables of
          Inl x \<Rightarrow> Inl x
        | Inr tables1 \<Rightarrow> da_pages_loop full_text pages text_blocks1 tables1)"

text \<open>
  \<^verbatim>\<open>extract_pdf_with_document_ai\<close>. An exception of the client or of the loop
  leaves the function. The average confidence is computed in float arithmetic.
\<close>

definition extract_pdf_with_document_ai ::
  "env \<Rightarrow> bytes \<Rightarrow> log \<Rightarrow> (exn + extraction_result) \<times> log" where
  "extract_pdf_with_document_ai e file_buffer lg =
    (case documentai_process (svc e) lg file_buffer of
       Inl x \<Rightarrow> (Inl x, lg @ [DocumentAI])
     | Inr document \<Rightarrow>
        (case da_pages_loop (doc_text document) (doc_pages document) [] [] of
           Inl x \<Rightarrow> (Inl x, lg @ [DocumentAI])
         | Inr (text_blocks, tables) \<Rightarrow>
            (let raw_text = doc_text document;
                 avg_confidence =
                   (if text_blocks \<noteq> []
                    then float_div (flt e) (float_sum (flt e) (map tb_confidence text_blocks))
                           (of_nat (length text_blocks))
                    else 9/10)
             in (Inr \<lparr> r_method = Some ''document_ai'',
                       r_confidence = Some avg_confidence,
                       r_text_blocks = Some text_blocks,
                       r_tables = Some tables,
                       r_images = Some [],
                       r_page_count = Some (int (length (doc_pages document))),
                       r_raw_text = Some raw_text \<rparr>,
                 lg @ [DocumentAI]))))"

text \<open>
  \<^verbatim>\<open>_render_page_thumbnail_data_url\<close>: \<open>None\<close> on any failure of the rendering.
\<close>

definition render_page_thumbnail_data_url :: "env \<Rightarrow> pdf_page \<Rightarrow> string option" where
  "render_page_thumbnail_data_url e page =
    (let page_width = pg_rect_width page;
         scale = (if page_width \<le> 0 then 1
                  else min 2 (max (1/4)
                         (float_div (flt e) (of_int (THUMBNAIL_MAX_WIDTH (cfg e))) page_width)))
     in case pg_render_jpeg page scale of
          Inl x \<Rightarrow> None
        | Inr b64 \<Rightarrow> Some (''data:image/jpeg;base64,'' @ b64))"

text \<open>
  The local variables of \<^verbatim>\<open>extract_pdf\<close>. They are assigned inside a
  \<^verbatim>\<open>try\<close> block and read after it, so an exception leaves them as they are at
  the raise.
\<close>

record pdf_locals =
  l_text_blocks :: "text_block list"
  l_tables :: "table list"
  l_images :: "image list"
  l_raw_text :: string
  l_method :: string
  l_confidence :: rat
  l_page_count :: int
  l_thumbnails_added :: int

text \<open>
  The loop over \<^verbatim>\<open>page.get_images()\<close> of a sparse page. A failure of the conversion
  (or of anything else in the body) is passed over by \<^verbatim>\<open>except: pass\<close>.
\<close>

fun ocr_page_images ::
  "env \<Rightarrow> int \<Rightarrow> (exn + bytes) list \<Rightarrow> text_block list \<Rightarrow> log \<Rightarrow> text_block list \<times> log" where
  "ocr_page_images e page_num [] text_blocks lg = (text_blocks, lg)"
| "ocr_page_images e page_num (img # imgs) text_blocks lg =
    (case img of
       Inl x \<Rightarrow> ocr_page_images e page_num imgs text_blocks lg
     | Inr img_data \<Rightarrow>
        (case ocr_image e img_data lg of
           (Inr (Some ocr_text), lg') \<Rightarrow>
             if ocr_text \<noteq> ''''
             then ocr_page_images e page_num imgs
                    (text_blocks @ [\<lparr> tb_text = ocr_text, tb_page = page_num + 1,
                                      tb_confidence = 7/10, tb_type = ''ocr'' \<rparr>]) lg'
             else ocr_page_images e page_num imgs text_blocks lg'
         | (Inr None, lg') \<Rightarrow> ocr_page_images e page_num imgs text_blocks lg'
         | (Inl x, lg') \<Rightarrow> ocr_page_images e page_num imgs text_blocks lg'))"

text \<open>
  The last block of the body of the first loop over the pages
  (\<^verbatim>\<open># If we still have no meaningful text for this page, attach a thumbnail\<close>),
  for the page of index \<open>page_num\<close>. Nothing in it raises: the renderer returns
  \<open>None\<close> on a failure.
\<close>

definition pdf_page_thumbnail ::
  "env \<Rightarrow> int \<Rightarrow> pdf_page \<Rightarrow> pdf_locals \<Rightarrow> log \<Rightarrow> pdf_locals \<times> log" where
  "pdf_page_thumbnail e page_num page st lg =
    (if l_thumbnails_added st < MAX_PAGE_THUMBNAILS (cfg e) then
       (let has_page_text = list_ex (\<lambda>b. tb_page b = page_num + 1
                                 \<and> length (strip (tb_text b)) \<ge> 20) (l_text_blocks st)
        in if \<not> has_page_text then
             (case render_page_thumbnail_data_url e page of
                Some data_url \<Rightarrow>
                  if data_url \<noteq> '''' then
                    (st\<lparr> l_images := l_images st @
                            [\<lparr> img_page = Some (page_num + 1),
                               img_type = Some ''page_thumbnail'',
                               img_data_url = Some data_url,
                               img_caption = Some ''Page thumbnail (no text extracted)'',
                               img_ocr_text = None \<rparr>],
                         l_thumbnails_added := l_thumbnails_added st + 1 \<rparr>,
                     lg @ [Thumbnail])
                  else (st, lg @ [Thumbnail])
              | None \<Rightarrow> (st, lg @ [Thumbnail]))
           else (st, lg))
     else (st, lg))"

text \<open>
  The body of the first loop over the pages, for the page of index \<open>page_num\<close>: the
  text layer of the page, the recognition of its images when the text is sparse, then the
  thumbnail. The first component of the result is the exception that leaves the body, if
  any.
\<close>

definition pdf_page_step ::
  "env \<Rightarrow> int \<Rightarrow> pdf_page \<Rightarrow> pdf_locals \<Rightarrow> log \<Rightarrow> exn option \<times> pdf_locals \<times> log" where
  "pdf_page_step e page_num page st lg =
    (case pg_get_text page of
       Inl x \<Rightarrow> (Some x, st, lg)
     | Inr page_text \<Rightarrow>
        (let st1 = (if strip page_text \<noteq> ''''
                    then st\<lparr> l_text_blocks := l_text_blocks st @
                            [\<lparr> tb_text = strip page_text, tb_page = page_num + 1,
                               tb_confidence = 85/100, tb_type = ''paragraph'' \<rparr>] \<rparr>
                    else st);
             (text_blocks2, lg2) =
                   (if length (strip page_text) < 100
                    then ocr_page_images e page_num (pg_get_images page) (l_text_blocks st1) lg
                    else (l_text_blocks st1, lg))
         in case pdf_page_thumbnail e page_num page (st1\<lparr> l_text_blocks := text_blocks2 \<rparr>) lg2 of
              (st3, lg3) \<Rightarrow> (None, st3, lg3)))"

text \<open>\<^verbatim>\<open>for page_num, page in enumerate(doc)\<close>, first pass.\<close>

fun pdf_pages_loop ::
  "env \<Rightarrow> int \<Rightarrow> pdf_page list \<Rightarrow> pdf_locals \<Rightarrow> log \<Rightarrow> exn option \<times> pdf_locals \<times> log" where
  "pdf_pages_loop e page_num [] st lg = (None, st, lg)"
| "pdf_pages_loop e page_num (page # pages) st lg =
    (case pdf_page_step e page_num page st lg of
       (Some x, st', lg') \<Rightarrow> (Some x, st', lg')
     | (None, st', lg') \<Rightarrow> pdf_pages_loop e (page_num + 1) pages st' lg')"

text \<open>
  \<^verbatim>\<open>for page_num, page in enumerate(doc)\<close>, the pass of full-page recognition.
  Nothing in its body is caught.
\<close>

fun pdf_ocr_loop ::
  "env \<Rightarrow> int \<Rightarrow> pdf_page list \<Rightarrow> pdf_locals \<Rightarrow> log \<Rightarrow> exn option \<times> pdf_locals \<times> log" where
  "pdf_ocr_loop e page_num [] st lg = (None, st, lg)"
| "pdf_ocr_loop e page_num (page # pages) st lg =
    (case pg_get_pixmap page of
       Inl x \<Rightarrow> (Some x, st, lg)
     | Inr img_data \<Rightarrow>
        (case ocr_image e img_data lg of
           (Inl x, lg') \<Rightarrow> (Some x, st, lg')
         | (Inr None, lg') \<Rightarrow> pdf_ocr_loop e (page_num + 1) pages st lg'
         | (Inr (Some ocr_text), lg') \<Rightarrow>
             if ocr_text \<noteq> ''''
             then pdf_ocr_loop e (page_num + 1) pages
                    (st\<lparr> l_text_blocks := l_text_blocks st @
                          [\<lparr> tb_text = ocr_text, tb_page = page_num + 1,
                             tb_confidence = 6/10, tb_type = ''page_ocr'' \<rparr>] \<rparr>) lg'
             else pdf_ocr_loop e (page_num + 1) pages st lg'))"

text \<open>
  The body of the second \<^verbatim>\<open>try\<close> block of \<^verbatim>\<open>extract_pdf\<close> (local
  extraction with PyMuPDF, then full-page recognition when little text was found).
\<close>

definition pymupdf_extraction ::
  "env \<Rightarrow> bytes \<Rightarrow> pdf_locals \<Rightarrow> log \<Rightarrow> exn option \<times> pdf_locals \<times> log" where
  "pymupdf_extraction e file_buffer st lg =
    (case fitz_open (rdr e) file_buffer of
       Inl x \<Rightarrow> (Some x, st, lg @ [FitzOpen])
     | Inr doc \<Rightarrow>
        (let st1 = st\<lparr> l_page_count := (if int (length doc) \<noteq> 0 then int (length doc) else 1),
                       l_thumbnails_added := 0 \<rparr>
         in case pdf_pages_loop e 0 doc st1 (lg @ [FitzOpen]) of
              (Some x, st2, lg2) \<Rightarrow> (Some x, st2, lg2)
            | (None, st2, lg2) \<Rightarrow>
               (let raw_text = join (nl @ nl) (map tb_text (l_text_blocks st2));
                    st3 = st2\<lparr> l_raw_text := raw_text,
                               l_confidence := (if raw_text \<noteq> '''' then 85/100 else 0),
                               l_method := ''pymupdf'' \<rparr>
                in if length raw_text < 100 then
                     (case fitz_open (rdr e) file_buffer of
                        Inl x \<Rightarrow> (Some x, st3, lg2 @ [FitzOpen])
                      | Inr doc2 \<Rightarrow>
                         (let st4 = st3\<lparr> l_page_count :=
                                       (if int (length doc2) \<noteq> 0 then int (length doc2)
                                        else l_page_count st3) \<rparr>
                          in case pdf_ocr_loop e 0 doc2 st4 (lg2 @ [FitzOpen]) of
                               (Some x, st5, lg5) \<Rightarrow> (Some x, st5, lg5)
                             | (None, st5, lg5) \<Rightarrow>
                                (None,
                                 st5\<lparr> l_raw_text :=
                                        join (nl @ nl) (map tb_text (l_text_blocks st5)),
                                      l_method := ''pymupdf_ocr'',
                                      l_confidence := 6/10 \<rparr>,
                                 lg5)))
                   else (None, st3, lg2))))"

text \<open>
  The first \<^verbatim>\<open>try\<close> block of \<^verbatim>\<open>extract_pdf\<close>: the result of Document AI
  when a processor is configured and its confidence is at least 0.7. The dictionary that
  \<^verbatim>\<open>extract_pdf_with_document_ai\<close> returns is never empty, so the test
  \<^verbatim>\<open>result and ...\<close> is the test of the confidence.
\<close>

definition try_document_ai :: "env \<Rightarrow> bytes \<Rightarrow> log \<Rightarrow> extraction_result option \<times> log" where
  "try_document_ai e file_buffer lg =
    (if DOCUMENT_AI_PROCESSOR_ID (cfg e) \<noteq> '''' then
       (case extract_pdf_with_document_ai e file_buffer lg of
          (Inr result, lg1) \<Rightarrow>
            if get_default (r_confidence result) 0 \<ge> 7/10 then (Some result, lg1)
            else (None, lg1)
        | (Inl x, lg1) \<Rightarrow> (None, lg1))
     else (None, lg))"

definition pdf_locals_init :: pdf_locals where
  "pdf_locals_init =
     \<lparr> l_text_blocks = [], l_tables = [], l_images = [], l_raw_text = '''',
       l_method = ''unknown'', l_confidence = 0, l_page_count = 1, l_thumbnails_added = 0 \<rparr>"

text \<open>\<^verbatim>\<open>extract_pdf\<close>\<close>

definition extract_pdf :: "env \<Rightarrow> bytes \<Rightarrow> log \<Rightarrow> (exn + extraction_result) \<times> log" where
  "extract_pdf e file_buffer lg =
    (case try_document_ai e file_buffer lg of
       (Some result, lg1) \<Rightarrow> (Inr result, lg1)
     | (None, lg1) \<Rightarrow>
        (case pymupdf_extraction e file_buffer pdf_locals_init lg1 of
           (caught, st, lg2) \<Rightarrow>
             (Inr \<lparr> r_method = Some (l_method st),
                    r_confidence = Some (l_confidence st),
                    r_text_blocks = Some (l_text_blocks st),
                    r_tables = Some (l_tables st),
                    r_images = Some (l_images st),
                    r_page_count = Some (l_page_count st),
                    r_raw_text = Some (l_raw_text st) \<rparr>,
              lg2)))"

subsection \<open>PPTX extraction\<close>

text \<open>The three lists that the PPTX and the DOCX extractor fill.\<close>

record collected =
  c_text_blocks :: "text_block list"
  c_tables :: "table list"
  c_images :: "image list"

text \<open>\<^verbatim>\<open>'\n'.join([' | '.join(row) for row in table_data])\<close>\<close>

definition table_text_of :: "string list list \<Rightarrow> string" where
  "table_text_of table_data = join nl (map (join '' | '') table_data)"

text \<open>
  The block \<^verbatim>\<open># Images - OCR if slide has little text\<close> of the loop over the
  shapes, for a shape that has an image, entered with the texts of the slide so far.
\<close>

definition pptx_shape_image ::
  "env \<Rightarrow> int \<Rightarrow> (exn + bytes) \<Rightarrow> collected \<Rightarrow> log \<Rightarrow> collected \<times> log" where
  "pptx_shape_image e slide_num blob acc lg =
    (case blob of
       Inl x \<Rightarrow> (acc, lg)
     | Inr image_bytes \<Rightarrow>
        (case ocr_image e image_bytes lg of
           (Inl x, lg') \<Rightarrow> (acc, lg')
         | (Inr None, lg') \<Rightarrow> (acc, lg')
         | (Inr (Some ocr_text), lg') \<Rightarrow>
             if ocr_text \<noteq> '''' \<and> length ocr_text > 20 then
               (acc\<lparr> c_text_blocks := c_text_blocks acc @
                       [\<lparr> tb_text = ocr_text, tb_page = slide_num,
                          tb_confidence = 7/10, tb_type = ''image_ocr'' \<rparr>],
                     c_images := c_images acc @
                       [\<lparr> img_page = Some slide_num, img_type = None, img_data_url = None,
                          img_caption = None, img_ocr_text = Some ocr_text \<rparr>] \<rparr>,
                lg')
             else (acc, lg')))"

text \<open>
  The body of \<^verbatim>\<open>for shape in slide.shapes\<close>. The test
  \<^verbatim>\<open>hasattr(shape, 'image')\<close> stands outside the inner \<^verbatim>\<open>try\<close> and is
  evaluated before the length of the slide's text is looked at, so an exception of the
  property leaves the body, whatever the text of the slide.
\<close>

definition pptx_shape_step ::
  "env \<Rightarrow> int \<Rightarrow> pptx_shape \<Rightarrow> string list \<Rightarrow> collected \<Rightarrow> log
     \<Rightarrow> (exn + string list \<times> collected) \<times> log" where
  "pptx_shape_step e slide_num shape slide_texts acc lg =
    (let texts = (if sh_has_text_frame shape
                  then filter (\<lambda>text. text \<noteq> '''') (map strip (sh_paragraphs shape))
                  else []);
         slide_texts1 = slide_texts @ texts;
         acc1 = acc\<lparr> c_text_blocks := c_text_blocks acc @
                   map (\<lambda>text. \<lparr> tb_text = text, tb_page = slide_num,
                                 tb_confidence = 95/100, tb_type = ''text'' \<rparr>) texts \<rparr>;
         acc2 = (if sh_has_table shape then
                   (let table_data = map (\<lambda>row. map (\<lambda>cell_text.
                            if cell_text \<noteq> '''' then strip cell_text else '''') row)
                          (sh_table_rows shape);
                        table_text = table_text_of table_data;
                        acc1' = acc1\<lparr> c_tables := c_tables acc1 @
                                  [\<lparr> t_rows = table_data, t_page = slide_num,
                                     t_confidence = 9/10 \<rparr>] \<rparr>
                    in if strip table_text \<noteq> ''''
                       then acc1'\<lparr> c_text_blocks := c_text_blocks acc1' @
                              [\<lparr> tb_text = ''[Table]'' @ nl @ table_text, tb_page = slide_num,
                                 tb_confidence = 9/10, tb_type = ''table'' \<rparr>] \<rparr>
                       else acc1')
                 else acc1)
     in case sh_image shape of
          NoImage \<Rightarrow> (Inr (slide_texts1, acc2), lg)
        | ImageRaises x \<Rightarrow> (Inl x, lg)
        | HasImage blob \<Rightarrow>
            if length (join '' '' slide_texts1) < 50
            then (case pptx_shape_image e slide_num blob acc2 lg of
                    (acc3, lg') \<Rightarrow> (Inr (slide_texts1, acc3), lg'))
            else (Inr (slide_texts1, acc2), lg))"

fun pptx_shapes_loop ::
  "env \<Rightarrow> int \<Rightarrow> pptx_shape list \<Rightarrow> string list \<Rightarrow> collected \<Rightarrow> log
     \<Rightarrow> (exn + collected) \<times> log" where
  "pptx_shapes_loop e slide_num [] slide_texts acc lg = (Inr acc, lg)"
| "pptx_shapes_loop e slide_num (shape # shapes) slide_texts acc lg =
    (case pptx_shape_step e slide_num shape slide_texts acc lg of
       (Inl x, lg') \<Rightarrow> (Inl x, lg')
     | (Inr (slide_texts', acc'), lg') \<Rightarrow>
         pptx_shapes_loop e slide_num shapes slide_texts' acc' lg')"

text \<open>The speaker notes of a slide, after its shapes.\<close>

definition pptx_notes :: "int \<Rightarrow> pptx_slide \<Rightarrow> collected \<Rightarrow> collected" where
  "pptx_notes slide_num slide acc =
    (case sl_notes_text slide of
       None \<Rightarrow> acc
     | Some notes \<Rightarrow>
        (let notes_text = strip notes
         in if notes_text \<noteq> ''''
            then acc\<lparr> c_text_blocks := c_text_blocks acc @
                   [\<lparr> tb_text = ''[Speaker Notes]'' @ nl @ notes_text, tb_page = slide_num,
                      tb_confidence = 95/100, tb_type = ''speaker_notes'' \<rparr>] \<rparr>
            else acc))"

text \<open>\<^verbatim>\<open>for slide_num, slide in enumerate(prs.slides, 1)\<close>\<close>

fun pptx_slides_loop ::
  "env \<Rightarrow> int \<Rightarrow> pptx_slide list \<Rightarrow> collected \<Rightarrow> log \<Rightarrow> (exn + collected) \<times> log" where
  "pptx_slides_loop e slide_num [] acc lg = (Inr acc, lg)"
| "pptx_slides_loop e slide_num (slide # slides) acc lg =
    (case pptx_shapes_loop e slide_num (sl_shapes slide) [] acc lg of
       (Inl x, lg') \<Rightarrow> (Inl x, lg')
     | (Inr acc', lg') \<Rightarrow>
         pptx_slides_loop e (slide_num + 1) slides (pptx_notes slide_num slide acc') lg')"

definition collected_init :: collected where
  "collected_init = \<lparr> c_text_blocks = [], c_tables = [], c_images = [] \<rparr>"

text \<open>
  \<^verbatim>\<open>extract_pptx\<close>. The handler of the \<^verbatim>\<open>try\<close> block prints and raises
  again, whether the exception comes from the reader or from the loop over the slides.
\<close>

definition extract_pptx :: "env \<Rightarrow> bytes \<Rightarrow> log \<Rightarrow> (exn + extraction_result) \<times> log" where
  "extract_pptx e file_buffer lg =
    (case Presentation (rdr e) file_buffer of
       Inl x \<Rightarrow> (Inl x, lg)
     | Inr slides \<Rightarrow>
        (case pptx_slides_loop e 1 slides collected_init lg of
           (Inl x, lg') \<Rightarrow> (Inl x, lg')
         | (Inr acc, lg') \<Rightarrow>
             (Inr \<lparr> r_method = Some ''python_pptx'',
                    r_confidence = Some (95/100),
                    r_text_blocks = Some (c_text_blocks acc),
                    r_tables = Some (c_tables acc),
                    r_images = Some (c_images acc),
                    r_page_count = Some (int (length slides)),
                    r_raw_text = Some (join (nl @ nl) (map tb_text (c_text_blocks acc))) \<rparr>,
              lg')))"

subsection \<open>DOCX extraction\<close>

text \<open>
  \<^verbatim>\<open>for para in doc.paragraphs\<close>. The style of a paragraph is read only when its
  text is not empty; an exception of that read leaves the loop.
\<close>

fun docx_paragraphs_loop :: "docx_paragraph list \<Rightarrow> text_block list \<Rightarrow> exn + text_block list" where
  "docx_paragraphs_loop [] text_blocks = Inr text_blocks"
| "docx_paragraphs_loop (para # paras) text_blocks =
    (let text = strip (dpar_text para)
     in if text \<noteq> '''' then
          (case dpar_style_name para of
             Inl x \<Rightarrow> Inl x
           | Inr style_name \<Rightarrow>
              docx_paragraphs_loop paras
                (text_blocks @
                   [\<lparr> tb_text = text, tb_page = 1, tb_confidence = 95/100,
                      tb_type = (if prefix ''Heading'' style_name
                                 then ''heading'' else ''paragraph'') \<rparr>]))
        else docx_paragraphs_loop paras text_blocks)"

text \<open>\<^verbatim>\<open>for table in doc.tables\<close>\<close>

fun docx_tables_loop :: "string list list list \<Rightarrow> collected \<Rightarrow> collected" where
  "docx_tables_loop [] acc = acc"
| "docx_tables_loop (tbl # tbls) acc =
    (let table_data = map (\<lambda>row. map strip row) tbl;
         table_text = table_text_of table_data;
         acc1 = acc\<lparr> c_tables := c_tables acc @
                  [\<lparr> t_rows = table_data, t_page = 1, t_confidence = 9/10 \<rparr>] \<rparr>
     in docx_tables_loop tbls
          (if strip table_text \<noteq> ''''
           then acc1\<lparr> c_text_blocks := c_text_blocks acc1 @
                  [\<lparr> tb_text = ''[Table]'' @ nl @ table_text, tb_page = 1,
                     tb_confidence = 9/10, tb_type = ''table'' \<rparr>] \<rparr>
           else acc1))"

text \<open>
  The \<^verbatim>\<open>try\<close> block of the loop over the relationships, for a relationship whose
  target names an image.
\<close>

definition docx_rel_image :: "env \<Rightarrow> (exn + bytes) \<Rightarrow> collected \<Rightarrow> log \<Rightarrow> collected \<times> log" where
  "docx_rel_image e blob acc lg =
    (case blob of
       Inl x \<Rightarrow> (acc, lg)
     | Inr image_data \<Rightarrow>
        (case ocr_image e image_data lg of
           (Inl x, lg') \<Rightarrow> (acc, lg')
         | (Inr None, lg') \<Rightarrow> (acc, lg')
         | (Inr (Some ocr_text), lg') \<Rightarrow>
             if ocr_text \<noteq> '''' \<and> length ocr_text > 20 then
               (acc\<lparr> c_text_blocks := c_text_blocks acc @
                       [\<lparr> tb_text = ''[Image Text]'' @ nl @ ocr_text, tb_page = 1,
                          tb_confidence = 7/10, tb_type = ''image_ocr'' \<rparr>],
                     c_images := c_images acc @
                       [\<lparr> img_page = None, img_type = None, img_data_url = None,
                          img_caption = None, img_ocr_text = Some ocr_text \<rparr>] \<rparr>,
                lg')
             else (acc, lg')))"

text \<open>\<^verbatim>\<open>for rel in doc.part.rels.values()\<close>\<close>

fun docx_rels_loop :: "env \<Rightarrow> docx_rel list \<Rightarrow> collected \<Rightarrow> log \<Rightarrow> collected \<times> log" where
  "docx_rels_loop e [] acc lg = (acc, lg)"
| "docx_rels_loop e (rel # rels) acc lg =
    (if contains ''image'' (rel_target_ref rel)
     then (case docx_rel_image e (rel_blob rel) acc lg of
             (acc', lg') \<Rightarrow> docx_rels_loop e rels acc' lg')
     else docx_rels_loop e rels acc lg)"

text \<open>
  \<^verbatim>\<open>extract_docx\<close>. The handler of the \<^verbatim>\<open>try\<close> block prints and raises
  again, whether the exception comes from the reader or from the body.
\<close>

definition extract_docx :: "env \<Rightarrow> bytes \<Rightarrow> log \<Rightarrow> (exn + extraction_result) \<times> log" where
  "extract_docx e file_buffer lg =
    (case Document (rdr e) file_buffer of
       Inl x \<Rightarrow> (Inl x, lg)
     | Inr doc \<Rightarrow>
        (case docx_paragraphs_loop (dx_paragraphs doc) [] of
           Inl x \<Rightarrow> (Inl x, lg)
         | Inr text_blocks \<Rightarrow>
            (let acc1 = collected_init\<lparr> c_text_blocks := text_blocks \<rparr>;
                 acc2 = docx_tables_loop (dx_tables doc) acc1
             in case docx_rels_loop e (dx_rels doc) acc2 lg of
                  (acc, lg') \<Rightarrow>
                    (Inr \<lparr> r_method = Some ''python_docx'',
                           r_confidence = Some (95/100),
                           r_text_blocks = Some (c_text_blocks acc),
                           r_tables = Some (c_tables acc),
                           r_images = Some (c_images acc),
                           r_page_count = Some 1,
                           r_raw_text = Some (join (nl @ nl) (map tb_text (c_text_blocks acc))) \<rparr>,
                     lg'))))"

subsection \<open>TXT extraction\<close>

text \<open>
  The loop over the encodings: the first decoding that does not raise, \<open>None\<close> when
  all of them raise.
\<close>

fun first_decoding :: "env \<Rightarrow> string list \<Rightarrow> bytes \<Rightarrow> string option" where
  "first_decoding e [] file_buffer = None"
| "first_decoding e (encoding # encodings) file_buffer =
    (case decode (rdr e) encoding file_buffer of
       Some text \<Rightarrow> Some text
     | None \<Rightarrow> first_decoding e encodings file_buffer)"

text \<open>\<^verbatim>\<open>extract_txt\<close>\<close>

definition extract_txt :: "env \<Rightarrow> bytes \<Rightarrow> log \<Rightarrow> (exn + extraction_result) \<times> log" where
  "extract_txt e file_buffer lg =
    (let text0 = first_decoding e [''utf-8'', ''latin-1'', ''cp1252''] file_buffer;
         text = (case text0 of
                   None \<Rightarrow> decode_ignore (rdr e) file_buffer
                 | Some t \<Rightarrow> if t \<noteq> '''' then t else decode_ignore (rdr e) file_buffer)
     in (Inr \<lparr> r_method = Some ''direct_read'',
               r_confidence = Some 1,
               r_text_blocks = Some [\<lparr> tb_text = text, tb_page = 1, tb_confidence = 1,
                                       tb_type = ''text'' \<rparr>],
               r_tables = Some [],
               r_images = Some [],
               r_page_count = Some 1,
               r_raw_text = Some text \<rparr>,
         lg))"

subsection \<open>The extract endpoint\<close>

text \<open>
  What the handler reads of the HTTP request: an uploaded file with its name and content
  type (either may be missing), or a JSON body with the keys \<^verbatim>\<open>signedUrl\<close>,
  \<^verbatim>\<open>fileName\<close> and \<^verbatim>\<open>mimeType\<close> (each may be missing), or neither.
\<close>

datatype request =
    FileUpload bytes "string option" "string option"
  | JsonBody "string option" "string option" "string option"
  | NoBody

record metadata =
  md_filename :: string
  md_fileType :: string
  md_fileSize :: nat
  md_extractionMethod :: string
  md_confidence :: rat

record success_body =
  sb_requestId :: string
  sb_processingTime :: int
  sb_canonical :: canonical_document
  sb_metadata :: metadata

text \<open>
  A response is the success body (status 200), or a status with the \<^verbatim>\<open>error\<close>
  message and the \<^verbatim>\<open>requestId\<close> when the body has one.
\<close>

datatype response =
    Success success_body
  | Failure int string "string option"

text \<open>\<^verbatim>\<open>int(x)\<close> of a float: truncation towards zero.\<close>

definition trunc :: "rat \<Rightarrow> int" where
  "trunc x = (if x \<ge> 0 then \<lfloor>x\<rfloor> else \<lceil>x\<rceil>)"

text \<open>
  The first part of the handler: the file buffer, the file name and the MIME type of the
  request; \<open>Inr None\<close> when the request carries no file, \<open>Inl\<close> when the download
  raises.
\<close>

definition receive_file :: "env \<Rightarrow> request \<Rightarrow> exn + (bytes \<times> string \<times> string) option" where
  "receive_file e req =
    (case req of
       FileUpload data name content_type \<Rightarrow>
         Inr (Some (data,
                    (case name of None \<Rightarrow> ''document''
                     | Some n \<Rightarrow> if n \<noteq> '''' then n else ''document''),
                    (case content_type of None \<Rightarrow> ''''
                     | Some c \<Rightarrow> if c \<noteq> '''' then c else '''')))
     | JsonBody signedUrl fileName mimeType \<Rightarrow>
         (case signedUrl of
            None \<Rightarrow> Inr None
          | Some signed_url \<Rightarrow>
             if signed_url = '''' then Inr None
             else (case requests_get (svc e) signed_url of
                     Inl x \<Rightarrow> Inl x
                   | Inr content \<Rightarrow>
                       Inr (Some (content, get_default fileName ''document'',
                                  get_default mimeType ''''))))
     | NoBody \<Rightarrow> Inr None)"

text \<open>
  The dispatch on the detected type: \<open>None\<close> when no extractor is called (the
  \<^verbatim>\<open>else\<close> branch of the handler).
\<close>

definition dispatch ::
  "env \<Rightarrow> string \<Rightarrow> bytes \<Rightarrow> log \<Rightarrow> ((exn + extraction_result) \<times> log) option" where
  "dispatch e file_type file_buffer lg =
    (if file_type = ''pdf'' then Some (extract_pdf e file_buffer lg)
     else if file_type \<in> set [''pptx'', ''ppt''] then Some (extract_pptx e file_buffer lg)
     else if file_type \<in> set [''docx'', ''doc''] then Some (extract_docx e file_buffer lg)
     else if file_type = ''txt'' then Some (extract_txt e file_buffer lg)
     else None)"

text \<open>
  The handler \<^verbatim>\<open>extract\<close> of the route \<^verbatim>\<open>/extract\<close> (the name
  \<open>extract\<close> is reserved). Every exception raised in the \<^verbatim>\<open>try\<close> block becomes the
  response of status 500 with the message and the request id.
\<close>

definition extract_endpoint :: "env \<Rightarrow> request \<Rightarrow> log \<Rightarrow> response \<times> log" where
  "extract_endpoint e req lg =
    (let request_id = take 8 (uuid4 e) in
     case receive_file e req of
       Inl x \<Rightarrow> (Failure 500 (str x) (Some request_id), lg)
     | Inr None \<Rightarrow> (Failure 400 ''No file provided'' None, lg)
     | Inr (Some (file_buffer, filename, mimetype)) \<Rightarrow>
        (let file_type = detect_file_type filename mimetype
         in case dispatch e file_type file_buffer lg of
              None \<Rightarrow> (Failure 400 (''Unsupported file type: '' @ file_type) None, lg)
            | Some (Inl x, lg') \<Rightarrow> (Failure 500 (str x) (Some request_id), lg')
            | Some (Inr result, lg') \<Rightarrow>
               (let canonical = build_canonical_model (time_strftime e) result filename
                                  file_type (length file_buffer) request_id;
                    processing_time = trunc (float_mul (flt e)
                                        (float_sub (flt e) (time_end e) (time_start e)) 1000)
                in (Success \<lparr> sb_requestId = request_id,
                              sb_processingTime = processing_time,
                              sb_canonical = canonical,
                              sb_metadata =
                                \<lparr> md_filename = filename,
                                  md_fileType = file_type,
                                  md_fileSize = length file_buffer,
                                  md_extractionMethod = get_default (r_method result) ''unknown'',
                                  md_confidence = get_default (r_confidence result) 0 \<rparr> \<rparr>,
                    lg'))))"

section \<open>Observations and sample inputs\<close>

text \<open>
  The calls that a function added to the log \<open>lg\<close> it was entered with, given the log
  \<open>lg'\<close> it returned.
\<close>

definition new_calls :: "log \<Rightarrow> log \<Rightarrow> log" where
  "new_calls lg lg' = drop (length lg) lg'"

text \<open>Cloud Vision failed or returned no annotation, at the call made with the log \<open>lg\<close>.\<close>

definition vision_gave_no_text :: "env \<Rightarrow> bytes \<Rightarrow> log \<Rightarrow> bool" where
  "vision_gave_no_text e image_data lg =
     (case vision_text_detection (svc e) lg image_data of
        Inl x \<Rightarrow> True
      | Inr text_annotations \<Rightarrow> text_annotations = [])"

text \<open>The Vertex tier failed or returned no text, at the call made with the log \<open>lg\<close>.\<close>

definition vertex_gave_no_text :: "env \<Rightarrow> bytes \<Rightarrow> log \<Rightarrow> bool" where
  "vertex_gave_no_text e image_data lg =
     (case ocr_with_vertex_gemini e image_data lg of
        Inl x \<Rightarrow> True
      | Inr None \<Rightarrow> True
      | Inr (Some text) \<Rightarrow> False)"

text \<open>
  A deployment with nothing optional configured, every network service down and every
  container reader rejecting its input; the codecs decode every buffer to itself.
\<close>

definition exn_unavailable :: exn where
  "exn_unavailable = Exn ''503 Service Unavailable''"

definition cfg_plain :: config where
  "cfg_plain = \<lparr> DOCUMENT_AI_PROCESSOR_ID = '''', OPENAI_API_KEY = '''',
                 VERTEX_GEMINI_OCR_ENABLED = False, MAX_PAGE_THUMBNAILS = 25,
                 THUMBNAIL_MAX_WIDTH = 900 \<rparr>"

definition svc_down :: services where
  "svc_down = \<lparr> documentai_process = (\<lambda>lg b. Inl exn_unavailable),
                vision_text_detection = (\<lambda>lg b. Inl exn_unavailable),
                google_auth_token = (\<lambda>lg. Inl exn_unavailable),
                vertex_post = (\<lambda>lg b. Inl exn_unavailable),
                openai_post = (\<lambda>lg b. Inl exn_unavailable),
                requests_get = (\<lambda>url. Inl exn_unavailable) \<rparr>"

definition rdr_corrupt :: readers where
  "rdr_corrupt = \<lparr> fitz_open = (\<lambda>b. Inl (Exn ''Failed to open stream'')),
                   Presentation = (\<lambda>b. Inl (Exn ''File is not a zip file'')),
                   Document = (\<lambda>b. Inl (Exn ''File is not a zip file'')),
                   decode = (\<lambda>encoding b. Some b),
                   decode_ignore = (\<lambda>b. b) \<rparr>"

text \<open>
  Float arithmetic for the sample runs: the arithmetic of the rationals, which is that of
  the floats wherever a sample run computes (the average of equal confidences, the
  quotient of the widths 900 and 600, the difference and product of the clock readings).
\<close>

definition flt_exact :: float_ops where
  "flt_exact = \<lparr> float_sum = sum_list,
                 float_div = (\<lambda>x y. x / y),
                 float_sub = (\<lambda>x y. x - y),
                 float_mul = (\<lambda>x y. x * y) \<rparr>"

definition env_plain :: env where
  "env_plain = \<lparr> cfg = cfg_plain, svc = svc_down, rdr = rdr_corrupt, flt = flt_exact,
                 uuid4 = ''1b9d6bcd-bbfd-4b2d-9b5d-ab8dfbbd4bed'',
                 time_start = 10, time_end = 21/2,
                 time_strftime = ''2024-05-01T12:00:00Z'' \<rparr>"

text \<open>
  A deployment with a Document AI processor, whose service answers with a document of one
  page and two paragraphs.
\<close>

definition da_doc_sample :: da_document where
  "da_doc_sample =
     \<lparr> doc_pages =
         [\<lparr> dp_page_number = 1,
            dp_paragraphs =
              [\<lparr> lay_text_segments = [\<lparr> seg_start_index = 0, seg_end_index = 6 \<rparr>],
                 lay_confidence = 95/100 \<rparr>,
               \<lparr> lay_text_segments = [\<lparr> seg_start_index = 6, seg_end_index = 12 \<rparr>],
                 lay_confidence = 95/100 \<rparr>],
            dp_tables = [] \<rparr>],
       doc_text = ''Hello'' @ nl @ ''World'' @ nl \<rparr>"

definition env_docai :: env where
  "env_docai = env_plain
     \<lparr> cfg := cfg_plain \<lparr> DOCUMENT_AI_PROCESSOR_ID := ''processor-1'' \<rparr>,
       svc := svc_down \<lparr> documentai_process := (\<lambda>lg b. Inr da_doc_sample) \<rparr> \<rparr>"

definition result_docai :: extraction_result where
  "result_docai =
     \<lparr> r_method = Some ''document_ai'',
       r_confidence = Some (95/100),
       r_text_blocks = Some [\<lparr> tb_text = ''Hello'', tb_page = 1, tb_confidence = 95/100,
                                 tb_type = ''paragraph'' \<rparr>,
                              \<lparr> tb_text = ''World'', tb_page = 1, tb_confidence = 95/100,
                                 tb_type = ''paragraph'' \<rparr>],
       r_tables = Some [],
       r_images = Some [],
       r_page_count = Some 1,
       r_raw_text = Some (''Hello'' @ nl @ ''World'' @ nl) \<rparr>"

text \<open>
  A deployment with both generative tiers enabled, where Cloud Vision is down and the
  Vertex endpoint reads the image.
\<close>

definition env_cascade :: env where
  "env_cascade = env_plain
     \<lparr> cfg := cfg_plain \<lparr> VERTEX_GEMINI_OCR_ENABLED := True, OPENAI_API_KEY := ''sk-test'' \<rparr>,
       svc := svc_down
         \<lparr> google_auth_token := (\<lambda>lg. Inr ''ya29.token''),
           vertex_post := (\<lambda>lg b. Inr \<lparr> vr_status_code = 200, vr_text = '''',
                                         vr_parts = Inr [''Invoice #123''] \<rparr>),
           openai_post := (\<lambda>lg b. Inr \<lparr> or_status_code = 200,
                                         or_content = Inr ''text of the third tier'' \<rparr>) \<rparr> \<rparr>"

text \<open>
  A deployment with the API key only, where Cloud Vision finds no text and the
  chat-completions API reads the image.
\<close>

definition env_openai :: env where
  "env_openai = env_plain
     \<lparr> cfg := cfg_plain \<lparr> OPENAI_API_KEY := ''sk-test'' \<rparr>,
       svc := svc_down
         \<lparr> vision_text_detection := (\<lambda>lg b. Inr []),
           openai_post := (\<lambda>lg b. Inr \<lparr> or_status_code = 200,
                                         or_content = Inr '' Total: 42 '' \<rparr>) \<rparr> \<rparr>"

text \<open>
  A deployment whose readers open every file: a PDF of two pages (a short line of text,
  then a blank page), a deck of one slide with a title and two pictures, and a document
  with a heading, a paragraph and two pictures. Cloud Vision reads 20 characters in the
  picture \<^verbatim>\<open>img-20\<close>, 24 characters in the picture \<^verbatim>\<open>img-24\<close> and nothing
  elsewhere.
\<close>

definition pdf_page_text :: pdf_page where
  "pdf_page_text =
     \<lparr> pg_get_text = Inr (''Quarterly report for the board'' @ nl),
       pg_get_images = [],
       pg_rect_width = 600,
       pg_render_jpeg = (\<lambda>scale. Inr ''/9j/4AAQSkZJRg''),
       pg_get_pixmap = Inr ''png-page-1'' \<rparr>"

definition pdf_page_blank :: pdf_page where
  "pdf_page_blank =
     \<lparr> pg_get_text = Inr nl,
       pg_get_images = [],
       pg_rect_width = 600,
       pg_render_jpeg = (\<lambda>scale. Inr ''/9j/4AAQSkZJRg''),
       pg_get_pixmap = Inr ''png-page-2'' \<rparr>"

definition slide_pictures :: pptx_slide where
  "slide_pictures =
     \<lparr> sl_shapes =
         [\<lparr> sh_has_text_frame = True, sh_paragraphs = [''Scan''], sh_has_table = False,
            sh_table_rows = [], sh_image = NoImage \<rparr>,
          \<lparr> sh_has_text_frame = False, sh_paragraphs = [], sh_has_table = False,
            sh_table_rows = [], sh_image = HasImage (Inr ''img-20'') \<rparr>,
          \<lparr> sh_has_text_frame = False, sh_paragraphs = [], sh_has_table = False,
            sh_table_rows = [], sh_image = HasImage (Inr ''img-24'') \<rparr>],
       sl_notes_text = None \<rparr>"

definition slide_one_picture :: pptx_slide where
  "slide_one_picture =
     \<lparr> sl_shapes =
         [\<lparr> sh_has_text_frame = False, sh_paragraphs = [], sh_has_table = False,
            sh_table_rows = [], sh_image = HasImage (Inr ''img-20'') \<rparr>],
       sl_notes_text = None \<rparr>"

definition docx_sample :: docx_document where
  "docx_sample =
     \<lparr> dx_paragraphs = [\<lparr> dpar_text = ''Introduction'', dpar_style_name = Inr ''Heading 1'' \<rparr>,
                        \<lparr> dpar_text = ''Hello world'', dpar_style_name = Inr ''Normal'' \<rparr>],
       dx_tables = [],
       dx_rels = [\<lparr> rel_target_ref = ''media/image1.png'', rel_blob = Inr ''img-20'' \<rparr>,
                  \<lparr> rel_target_ref = ''media/image2.png'', rel_blob = Inr ''img-24'' \<rparr>,
                  \<lparr> rel_target_ref = ''styles.xml'', rel_blob = Inr '''' \<rparr>] \<rparr>"

definition vision_sample :: "log \<Rightarrow> bytes \<Rightarrow> exn + string list" where
  "vision_sample lg image_data =
     (if image_data = ''img-20'' then Inr [''exactly twenty chars'']
      else if image_data = ''img-24'' then Inr [''Total amount due: 42 EUR'']
      else Inr [])"

text \<open>
  A slide whose second shape is a linked picture, a document whose second paragraph has
  a style without name, and an answer of Document AI with a table on its page.
\<close>

definition slide_linked_picture :: pptx_slide where
  "slide_linked_picture =
     \<lparr> sl_shapes =
         [\<lparr> sh_has_text_frame = True, sh_paragraphs = [''Agenda''], sh_has_table = False,
            sh_table_rows = [], sh_image = NoImage \<rparr>,
          \<lparr> sh_has_text_frame = False, sh_paragraphs = [], sh_has_table = False,
            sh_table_rows = [], sh_image = ImageRaises (Exn ''no embedded image'') \<rparr>],
       sl_notes_text = None \<rparr>"

definition docx_no_style :: docx_document where
  "docx_no_style =
     \<lparr> dx_paragraphs =
         [\<lparr> dpar_text = ''Introduction'', dpar_style_name = Inr ''Heading 1'' \<rparr>,
          \<lparr> dpar_text = ''Hello world'',
             dpar_style_name = Inl (Exn ''NoneType object has no attribute startswith'') \<rparr>],
       dx_tables = [],
       dx_rels = [] \<rparr>"

definition da_doc_table :: da_document where
  "da_doc_table =
     \<lparr> doc_pages =
         [\<lparr> dp_page_number = 1,
            dp_paragraphs =
              [\<lparr> lay_text_segments = [\<lparr> seg_start_index = 0, seg_end_index = 6 \<rparr>],
                 lay_confidence = 95/100 \<rparr>],
            dp_tables =
              [\<lparr> tbl_header_rows =
                   [[\<lparr> lay_text_segments = [\<lparr> seg_start_index = 6, seg_end_index = 11 \<rparr>],
                       lay_confidence = 95/100 \<rparr>]],
                 tbl_body_rows = [] \<rparr>] \<rparr>],
       doc_text = ''Hello'' @ nl @ ''World'' @ nl \<rparr>"

definition env_files :: env where
  "env_files = env_plain
     \<lparr> svc := svc_down \<lparr> vision_text_detection := vision_sample \<rparr>,
       rdr := rdr_corrupt
         \<lparr> fitz_open := (\<lambda>b. Inr [pdf_page_text, pdf_page_blank]),
           Presentation := (\<lambda>b. if b = ''one picture'' then Inr [slide_one_picture]
                                  else if b = ''linked picture'' then Inr [slide_linked_picture]
                                  else Inr [slide_pictures]),
           Document := (\<lambda>b. if b = ''no style'' then Inr docx_no_style
                              else Inr docx_sample) \<rparr> \<rparr>"

text \<open>
  The deployment above with a Document AI processor whose service answers with the
  document that has a table.
\<close>

definition env_docai_table :: env where
  "env_docai_table = env_files
     \<lparr> cfg := cfg_plain \<lparr> DOCUMENT_AI_PROCESSOR_ID := ''processor-1'' \<rparr>,
       svc := svc_down \<lparr> vision_text_detection := vision_sample,
                          documentai_process := (\<lambda>lg b. Inr da_doc_table) \<rparr> \<rparr>"

text \<open>
  The raw text of a result is the texts of its blocks, joined by two newlines, in the
  order of the blocks.
\<close>

definition raw_text_is_joined :: "extraction_result \<Rightarrow> bool" where
  "raw_text_is_joined r =
     (r_raw_text r = Some (join (nl @ nl) (map tb_text (get_default (r_text_blocks r) []))))"

text \<open>
  The invariant of the first loop over the pages of a PDF, before the page of index
  \<open>n\<close>: every block is of an earlier page and its text is stripped; every image is the
  thumbnail of an earlier page none of whose blocks has 20 characters; and the counter of
  thumbnails is the number of images and within the configured maximum.
\<close>

definition thumbs_inv :: "env \<Rightarrow> int \<Rightarrow> pdf_locals \<Rightarrow> bool" where
  "thumbs_inv e n st =
     ((\<forall>b\<in>set (l_text_blocks st). tb_page b \<le> n \<and> strip (tb_text b) = tb_text b)
      \<and> (\<forall>img\<in>set (l_images st). img_type img = Some ''page_thumbnail''
            \<and> (\<exists>p. img_page img = Some p \<and> p \<le> n
                  \<and> (\<forall>b\<in>set (l_text_blocks st). tb_page b = p \<longrightarrow> length (tb_text b) < 20)))
      \<and> int (length (l_images st)) = l_thumbnails_added st
      \<and> l_thumbnails_added st \<le> max 0 (MAX_PAGE_THUMBNAILS (cfg e)))"

text \<open>
  Every block of type \<^verbatim>\<open>image_ocr\<close> in a list has confidence 0.7 and a text of more
  than 20 characters.
\<close>

definition image_ocr_blocks_long :: "text_block list \<Rightarrow> bool" where
  "image_ocr_blocks_long blocks =
     (\<forall>b\<in>set blocks. tb_type b = ''image_ocr''
         \<longrightarrow> tb_confidence b = 7/10 \<and> 20 < length (tb_text b))"

text \<open>
  The deployment above with at most one thumbnail per document and a PDF of two blank
  pages.
\<close>

definition env_cap :: env where
  "env_cap = env_files
     \<lparr> cfg := cfg_plain \<lparr> MAX_PAGE_THUMBNAILS := 1 \<rparr>,
       rdr := rdr_corrupt \<lparr> fitz_open := (\<lambda>b. Inr [pdf_page_blank, pdf_page_blank]) \<rparr> \<rparr>"

text \<open>What the extractors return on the sample files, written out.\<close>

definition thumbnail_sample :: "int \<Rightarrow> image" where
  "thumbnail_sample p =
     \<lparr> img_page = Some p, img_type = Some ''page_thumbnail'',
       img_data_url = Some ''data:image/jpeg;base64,/9j/4AAQSkZJRg'',
       img_caption = Some ''Page thumbnail (no text extracted)'',
       img_ocr_text = None \<rparr>"

definition block_report :: text_block where
  "block_report = \<lparr> tb_text = ''Quarterly report for the board'', tb_page = 1,
                     tb_confidence = 85/100, tb_type = ''paragraph'' \<rparr>"

definition locals_pdf_loop :: pdf_locals where
  "locals_pdf_loop =
     \<lparr> l_text_blocks = [block_report], l_tables = [], l_images = [thumbnail_sample 2],
       l_raw_text = '''', l_method = ''unknown'', l_confidence = 0, l_page_count = 1,
       l_thumbnails_added = 1 \<rparr>"

definition locals_pdf_sample :: pdf_locals where
  "locals_pdf_sample =
     \<lparr> l_text_blocks = [block_report], l_tables = [], l_images = [thumbnail_sample 2],
       l_raw_text = ''Quarterly report for the board'', l_method = ''pymupdf_ocr'',
       l_confidence = 6/10, l_page_count = 2, l_thumbnails_added = 1 \<rparr>"

definition result_pdf_sample :: extraction_result where
  "result_pdf_sample =
     \<lparr> r_method = Some ''pymupdf_ocr'', r_confidence = Some (6/10),
       r_text_blocks = Some [block_report], r_tables = Some [],
       r_images = Some [thumbnail_sample 2], r_page_count = Some 2,
       r_raw_text = Some ''Quarterly report for the board'' \<rparr>"

definition result_pdf_cap :: extraction_result where
  "result_pdf_cap =
     \<lparr> r_method = Some ''pymupdf_ocr'', r_confidence = Some (6/10),
       r_text_blocks = Some [], r_tables = Some [],
       r_images = Some [thumbnail_sample 1], r_page_count = Some 2,
       r_raw_text = Some '''' \<rparr>"

definition result_pptx_sample :: extraction_result where
  "result_pptx_sample =
     \<lparr> r_method = Some ''python_pptx'', r_confidence = Some (95/100),
       r_text_blocks =
         Some [\<lparr> tb_text = ''Scan'', tb_page = 1, tb_confidence = 95/100, tb_type = ''text'' \<rparr>,
               \<lparr> tb_text = ''Total amount due: 42 EUR'', tb_page = 1, tb_confidence = 7/10,
                  tb_type = ''image_ocr'' \<rparr>],
       r_tables = Some [],
       r_images = Some [\<lparr> img_page = Some 1, img_type = None, img_data_url = None,
                          img_caption = None,
                          img_ocr_text = Some ''Total amount due: 42 EUR'' \<rparr>],
       r_page_count = Some 1,
       r_raw_text = Some (''Scan'' @ nl @ nl @ ''Total amount due: 42 EUR'') \<rparr>"

definition result_pptx_one_picture :: extraction_result where
  "result_pptx_one_picture =
     \<lparr> r_method = Some ''python_pptx'', r_confidence = Some (95/100),
       r_text_blocks = Some [], r_tables = Some [], r_images = Some [],
       r_page_count = Some 1, r_raw_text = Some '''' \<rparr>"

definition result_docx_sample :: extraction_result where
  "result_docx_sample =
     \<lparr> r_method = Some ''python_docx'', r_confidence = Some (95/100),
       r_text_blocks =
         Some [\<lparr> tb_text = ''Introduction'', tb_page = 1, tb_confidence = 95/100,
                  tb_type = ''heading'' \<rparr>,
               \<lparr> tb_text = ''Hello world'', tb_page = 1, tb_confidence = 95/100,
                  tb_type = ''paragraph'' \<rparr>,
               \<lparr> tb_text = ''[Image Text]'' @ nl @ ''Total amount due: 42 EUR'', tb_page = 1,
                  tb_confidence = 7/10, tb_type = ''image_ocr'' \<rparr>],
       r_tables = Some [],
       r_images = Some [\<lparr> img_page = None, img_type = None, img_data_url = None,
                          img_caption = None,
                          img_ocr_text = Some ''Total amount due: 42 EUR'' \<rparr>],
       r_page_count = Some 1,
       r_raw_text = Some (''Introduction'' @ nl @ nl @ ''Hello world'' @ nl @ nl
                          @ ''[Image Text]'' @ nl @ ''Total amount due: 42 EUR'') \<rparr>"

definition result_txt_sample :: extraction_result where
  "result_txt_sample =
     \<lparr> r_method = Some ''direct_read'', r_confidence = Some 1,
       r_text_blocks = Some [\<lparr> tb_text = ''plain text'', tb_page = 1, tb_confidence = 1,
                               tb_type = ''text'' \<rparr>],
       r_tables = Some [], r_images = Some [], r_page_count = Some 1,
       r_raw_text = Some ''plain text'' \<rparr>"

text \<open>
  The rule of the format detector in the words of its description: the formats in the
  order in which they are tried, the extensions that name a format, the substrings of the
  MIME type that name it, and the test of a format, which succeeds when the extension is
  one of its extensions or the MIME type contains one of its substrings.
\<close>

definition format_priority :: "string list" where
  "format_priority = [''pdf'', ''pptx'', ''docx'', ''txt'', ''image'']"

definition format_extensions :: "string \<Rightarrow> string list" where
  "format_extensions tag =
     (if tag = ''pdf'' then [''pdf'']
      else if tag = ''pptx'' then [''pptx'', ''ppt'']
      else if tag = ''docx'' then [''docx'', ''doc'']
      else if tag = ''txt'' then [''txt'']
      else if tag = ''image'' then [''png'', ''jpg'', ''jpeg'', ''webp'', ''gif'']
      else [])"

definition format_mime_substrings :: "string \<Rightarrow> string list" where
  "format_mime_substrings tag =
     (if tag = ''pdf'' then [''pdf'']
      else if tag = ''pptx'' then [''presentation'', ''powerpoint'']
      else if tag = ''docx'' then [''word'', ''document'']
      else if tag = ''txt'' then [''text/plain'']
      else [])"

definition format_matches :: "string \<Rightarrow> string \<Rightarrow> string \<Rightarrow> bool" where
  "format_matches tag ext mimetype =
     (ext \<in> set (format_extensions tag)
      \<or> list_ex (\<lambda>sub. contains sub mimetype) (format_mime_substrings tag))"

text \<open>The first format of the order whose test succeeds, \<^verbatim>\<open>unknown\<close> when none does.\<close>

definition first_matching_format :: "string \<Rightarrow> string \<Rightarrow> string" where
  "first_matching_format ext mimetype =
     (case find (\<lambda>tag. format_matches tag ext mimetype) format_priority of
        Some tag \<Rightarrow> tag
      | None \<Rightarrow> ''unknown'')"

text \<open>
  What the recognition cascade returns, tier by tier, in the words of its description:
  the stripped first annotation of Cloud Vision when there is one; otherwise the text of
  the Vertex tier when it is enabled and returns one; otherwise, when an API key is set,
  what the API-key tier returns (\<open>None\<close> when it raises); otherwise \<open>None\<close>.
  \<open>log_after_vertex\<close> is the log with which the API-key tier is entered.
\<close>

definition log_after_vertex :: "env \<Rightarrow> log \<Rightarrow> log" where
  "log_after_vertex e lg =
     (if VERTEX_GEMINI_OCR_ENABLED (cfg e) then lg @ [Vision, VertexGemini] else lg @ [Vision])"

definition cascade_result :: "env \<Rightarrow> bytes \<Rightarrow> log \<Rightarrow> string option" where
  "cascade_result e image_data lg =
     (case vision_text_detection (svc e) lg image_data of
        Inr (annotation # annotations) \<Rightarrow> Some (strip annotation)
      | other \<Rightarrow>
         (case (if VERTEX_GEMINI_OCR_ENABLED (cfg e)
                then ocr_with_vertex_gemini e image_data (lg @ [Vision]) else Inr None) of
            Inr (Some text) \<Rightarrow> Some text
          | no_text \<Rightarrow>
             (if OPENAI_API_KEY (cfg e) \<noteq> ''''
              then (case ocr_with_openai e image_data (log_after_vertex e lg) of
                      Inr r \<Rightarrow> r
                    | Inl x \<Rightarrow> None)
              else None)))"

definition cascade_calls :: "env \<Rightarrow> bytes \<Rightarrow> log \<Rightarrow> call list" where
  "cascade_calls e image_data lg =
     (if \<not> vision_gave_no_text e image_data lg then [Vision]
      else [Vision]
           @ (if VERTEX_GEMINI_OCR_ENABLED (cfg e) then [VertexGemini] else [])
           @ (if (VERTEX_GEMINI_OCR_ENABLED (cfg e)
                    \<longrightarrow> vertex_gave_no_text e image_data (lg @ [Vision]))
                 \<and> OPENAI_API_KEY (cfg e) \<noteq> '''' then [OpenAI] else []))"

text \<open>
  The deployment with both generative tiers where Cloud Vision answers, with no
  annotation; and a deployment with both tiers where Cloud Vision finds nothing and the
  Vertex tier cannot get a token.
\<close>

definition env_cascade_empty :: env where
  "env_cascade_empty = env_cascade
     \<lparr> svc := svc env_cascade \<lparr> vision_text_detection := (\<lambda>lg b. Inr []) \<rparr> \<rparr>"

definition env_vertex_down :: env where
  "env_vertex_down = env_openai
     \<lparr> cfg := cfg_plain \<lparr> VERTEX_GEMINI_OCR_ENABLED := True, OPENAI_API_KEY := ''sk-test'' \<rparr> \<rparr>"

text \<open>
  An answer of Document AI with six paragraphs of confidence 0.9, 0.9, 0.25, 0.9, 0.25
  and 1.0, whose exact average is 0.7, and the float arithmetic on these values: the sum
  of the six floats is the float 4.199999999999999 and its quotient by 6 the float
  0.6999999999999998, both written as the fractions they are. Elsewhere the operations
  are those of the sample runs.
\<close>

definition da_doc_rounding :: da_document where
  "da_doc_rounding =
     \<lparr> doc_pages =
         [\<lparr> dp_page_number = 1,
            dp_paragraphs =
              map (\<lambda>c. \<lparr> lay_text_segments = [\<lparr> seg_start_index = 0, seg_end_index = 5 \<rparr>],
                          lay_confidence = c \<rparr>)
                [9/10, 9/10, 1/4, 9/10, 1/4, 1],
            dp_tables = [] \<rparr>],
       doc_text = ''Hello'' \<rparr>"

definition flt_rounding :: float_ops where
  "flt_rounding = flt_exact
     \<lparr> float_sum := (\<lambda>xs. if xs = [9/10, 9/10, 1/4, 9/10, 1/4, 1]
                            then 1182194902184755 / 281474976710656 else sum_list xs),
       float_div := (\<lambda>x y. if x = 1182194902184755 / 281474976710656 \<and> y = 6
                             then 6305039478318693 / 9007199254740992 else x / y) \<rparr>"

definition env_docai_rounding :: env where
  "env_docai_rounding = env_files
     \<lparr> cfg := cfg_plain \<lparr> DOCUMENT_AI_PROCESSOR_ID := ''processor-1'' \<rparr>,
       svc := svc_down \<lparr> vision_text_detection := vision_sample,
                          documentai_process := (\<lambda>lg b. Inr da_doc_rounding) \<rparr>,
       flt := flt_rounding \<rparr>"

section \<open>Verified properties\<close>

subsection \<open>Canonical model builder\<close>

text \<open>
  Claim C1. For every extraction result and all file metadata, the canonical document
  that \<^verbatim>\<open>build_canonical_model\<close> returns has \<^verbatim>\<open>stats.total_chars\<close> equal to
  the length of \<^verbatim>\<open>content.full_text\<close> and \<^verbatim>\<open>stats.total_blocks\<close> equal to the
  length of \<^verbatim>\<open>content.text_blocks\<close>.
\<close>

theorem canonical_stats_match_content:
  "total_chars (cd_stats (build_canonical_model now result filename file_type file_size request_id))
     = length (ct_full_text (cd_content
         (build_canonical_model now result filename file_type file_size request_id)))
   \<and> total_blocks (cd_stats (build_canonical_model now result filename file_type file_size request_id))
     = length (ct_text_blocks (cd_content
         (build_canonical_model now result filename file_type file_size request_id)))"
  by (simp add: build_canonical_model_def Let_def)

text \<open>
  Claim C9. Two calls of \<^verbatim>\<open>build_canonical_model\<close> with the same extraction result,
  file name, file type, file size and request id, made at any two times \<open>t1\<close> and
  \<open>t2\<close>, return documents that are equal once the \<^verbatim>\<open>extraction.timestamp\<close> of one
  is put into the other: no other field depends on the time of the call. The builder has
  no failing branch: it reads its argument with \<^verbatim>\<open>.get\<close> and defaults only, so the
  model is a total function that returns a document for every result.
\<close>

theorem build_canonical_model_timestamp_only:
  "build_canonical_model t1 result filename file_type file_size request_id
     = (build_canonical_model t2 result filename file_type file_size request_id)
         \<lparr> cd_extraction :=
             (cd_extraction (build_canonical_model t2 result filename file_type file_size request_id))
               \<lparr> ex_timestamp := t1 \<rparr> \<rparr>"
  by (simp add: build_canonical_model_def Let_def)

subsection \<open>Format detector\<close>

text \<open>
  Claim C3, as stated, fails: the file name \<^verbatim>\<open>report.docx\<close> has the recognised
  extension \<^verbatim>\<open>docx\<close>, yet with the MIME type \<^verbatim>\<open>application/pdf\<close> the detector
  answers \<^verbatim>\<open>pdf\<close>. The MIME type is consulted although the extension is present
  and recognised.
\<close>

theorem detect_mime_overrides_extension:
  "file_ext ''report.docx'' = ''docx''
   \<and> detect_file_type ''report.docx'' ''application/pdf'' = ''pdf''
   \<and> detect_file_type ''report.docx'' ''application/pdf'' \<noteq> ''docx''"
  by code_simp

text \<open>
  Claim C3, amended. The formats are tried in the fixed order pdf, pptx, docx, txt, image,
  and a format is chosen when the extension names it or the MIME type contains one of its
  substrings: the detector answers the first format of this order whose test succeeds on
  the extension of the file name and the MIME type, and \<^verbatim>\<open>unknown\<close> when none
  does. So the extension \<^verbatim>\<open>pdf\<close> yields \<^verbatim>\<open>pdf\<close> whatever the MIME type,
  a MIME type that contains \<^verbatim>\<open>pdf\<close> yields \<^verbatim>\<open>pdf\<close> whatever the extension,
  and any other recognised extension yields its own tag provided that the MIME type
  contains no substring of a format of higher priority.
\<close>

theorem detect_file_type_precedence:
  "detect_file_type filename mimetype = first_matching_format (file_ext filename) mimetype
   \<and> (file_ext filename = ''pdf'' \<longrightarrow> detect_file_type filename mimetype = ''pdf'')
   \<and> (contains ''pdf'' mimetype \<longrightarrow> detect_file_type filename mimetype = ''pdf'')
   \<and> (file_ext filename \<in> {''pptx'', ''ppt''} \<and> \<not> contains ''pdf'' mimetype
        \<longrightarrow> detect_file_type filename mimetype = ''pptx'')
   \<and> (file_ext filename \<in> {''docx'', ''doc''} \<and> \<not> contains ''pdf'' mimetype
        \<and> \<not> contains ''presentation'' mimetype \<and> \<not> contains ''powerpoint'' mimetype
        \<longrightarrow> detect_file_type filename mimetype = ''docx'')
   \<and> (file_ext filename = ''txt'' \<and> \<not> contains ''pdf'' mimetype
        \<and> \<not> contains ''presentation'' mimetype \<and> \<not> contains ''powerpoint'' mimetype
        \<and> \<not> contains ''word'' mimetype \<and> \<not> contains ''document'' mimetype
        \<longrightarrow> detect_file_type filename mimetype = ''txt'')
   \<and> (file_ext filename \<in> {''png'', ''jpg'', ''jpeg'', ''webp'', ''gif''}
        \<and> \<not> contains ''pdf'' mimetype
        \<and> \<not> contains ''presentation'' mimetype \<and> \<not> contains ''powerpoint'' mimetype
        \<and> \<not> contains ''word'' mimetype \<and> \<not> contains ''document'' mimetype
        \<and> \<not> contains ''text/plain'' mimetype
        \<longrightarrow> detect_file_type filename mimetype = ''image'')"
proof (rule conjI)
  show "detect_file_type filename mimetype = first_matching_format (file_ext filename) mimetype"
    by (simp add: detect_file_type_def first_matching_format_def format_priority_def
        format_matches_def format_extensions_def format_mime_substrings_def Let_def)
qed (auto simp add: detect_file_type_def Let_def)

text \<open>
  The amended claim at concrete inputs, one for each of its cases: the hypotheses hold
  there and the detector answers as stated. Without an extension the MIME type decides,
  and with neither the answer is \<^verbatim>\<open>unknown\<close>.
\<close>

theorem detect_file_type_precedence_witness:
  "file_ext ''Scan.PDF'' = ''pdf''
   \<and> detect_file_type ''Scan.PDF'' ''text/plain'' = ''pdf''
   \<and> contains ''pdf'' ''application/pdf''
   \<and> detect_file_type ''notes.txt'' ''application/pdf'' = ''pdf''
   \<and> file_ext ''deck.ppt'' = ''ppt'' \<and> \<not> contains ''pdf'' ''application/msword''
   \<and> detect_file_type ''deck.ppt'' ''application/msword'' = ''pptx''
   \<and> file_ext ''paper.docx'' = ''docx'' \<and> \<not> contains ''pdf'' ''text/plain''
   \<and> \<not> contains ''presentation'' ''text/plain'' \<and> \<not> contains ''powerpoint'' ''text/plain''
   \<and> detect_file_type ''paper.docx'' ''text/plain'' = ''docx''
   \<and> file_ext ''a.b.txt'' = ''txt''
   \<and> detect_file_type ''a.b.txt'' ''application/octet-stream'' = ''txt''
   \<and> file_ext ''photo.jpeg'' = ''jpeg''
   \<and> detect_file_type ''photo.jpeg'' ''image/jpeg'' = ''image''
   \<and> file_ext ''slides'' = ''''
   \<and> first_matching_format '''' ''application/vnd.ms-powerpoint'' = ''pptx''
   \<and> detect_file_type ''slides'' ''application/vnd.ms-powerpoint'' = ''pptx''
   \<and> first_matching_format '''' ''application/msword'' = ''docx''
   \<and> detect_file_type ''memo'' ''application/msword'' = ''docx''
   \<and> first_matching_format '''' ''text/plain; charset=utf-8'' = ''txt''
   \<and> detect_file_type ''README'' ''text/plain; charset=utf-8'' = ''txt''
   \<and> first_matching_format ''bin'' ''application/octet-stream'' = ''unknown''
   \<and> detect_file_type ''data.bin'' ''application/octet-stream'' = ''unknown''"
proof -
  note t = detect_file_type_precedence
  have ext: "file_ext ''Scan.PDF'' = ''pdf''" "file_ext ''deck.ppt'' = ''ppt''"
    "file_ext ''paper.docx'' = ''docx''" "file_ext ''a.b.txt'' = ''txt''"
    "file_ext ''photo.jpeg'' = ''jpeg''" "file_ext ''slides'' = ''''"
    "file_ext ''memo'' = ''''" "file_ext ''README'' = ''''" "file_ext ''data.bin'' = ''bin''"
    by code_simp+
  have mime: "contains ''pdf'' ''application/pdf''"
    "\<not> contains ''pdf'' ''application/msword''"
    "\<not> contains ''pdf'' ''text/plain''" "\<not> contains ''presentation'' ''text/plain''"
    "\<not> contains ''powerpoint'' ''text/plain''"
    "\<not> contains ''pdf'' ''application/octet-stream''"
    "\<not> contains ''presentation'' ''application/octet-stream''"
    "\<not> contains ''powerpoint'' ''application/octet-stream''"
    "\<not> contains ''word'' ''application/octet-stream''"
    "\<not> contains ''document'' ''application/octet-stream''"
    "\<not> contains ''pdf'' ''image/jpeg''" "\<not> contains ''presentation'' ''image/jpeg''"
    "\<not> contains ''powerpoint'' ''image/jpeg''" "\<not> contains ''word'' ''image/jpeg''"
    "\<not> contains ''document'' ''image/jpeg''" "\<not> contains ''text/plain'' ''image/jpeg''"
    by code_simp+
  have first: "first_matching_format '''' ''application/vnd.ms-powerpoint'' = ''pptx''"
    "first_matching_format '''' ''application/msword'' = ''docx''"
    "first_matching_format '''' ''text/plain; charset=utf-8'' = ''txt''"
    "first_matching_format ''bin'' ''application/octet-stream'' = ''unknown''"
    by code_simp+
  have a: "detect_file_type ''Scan.PDF'' ''text/plain'' = ''pdf''"
    "detect_file_type ''notes.txt'' ''application/pdf'' = ''pdf''"
    "detect_file_type ''deck.ppt'' ''application/msword'' = ''pptx''"
    "detect_file_type ''paper.docx'' ''text/plain'' = ''docx''"
    "detect_file_type ''a.b.txt'' ''application/octet-stream'' = ''txt''"
    "detect_file_type ''photo.jpeg'' ''image/jpeg'' = ''image''"
    using ext mime
      t [THEN conjunct2, of "''Scan.PDF''" "''text/plain''"]
      t [THEN conjunct2, of "''notes.txt''" "''application/pdf''"]
      t [THEN conjunct2, of "''deck.ppt''" "''application/msword''"]
      t [THEN conjunct2, of "''paper.docx''" "''text/plain''"]
      t [THEN conjunct2, of "''a.b.txt''" "''application/octet-stream''"]
      t [THEN conjunct2, of "''photo.jpeg''" "''image/jpeg''"]
    by simp_all
  have b: "detect_file_type ''slides'' ''application/vnd.ms-powerpoint'' = ''pptx''"
    "detect_file_type ''memo'' ''application/msword'' = ''docx''"
    "detect_file_type ''README'' ''text/plain; charset=utf-8'' = ''txt''"
    "detect_file_type ''data.bin'' ''application/octet-stream'' = ''unknown''"
    using ext first
      t [THEN conjunct1, of "''slides''" "''application/vnd.ms-powerpoint''"]
      t [THEN conjunct1, of "''memo''" "''application/msword''"]
      t [THEN conjunct1, of "''README''" "''text/plain; charset=utf-8''"]
      t [THEN conjunct1, of "''data.bin''" "''application/octet-stream''"]
    by simp_all
  show ?thesis
    using ext mime first a b by simp
qed

subsection \<open>Unsupported formats\<close>

lemmas env_plain_simps =
  env_plain_def cfg_plain_def svc_down_def rdr_corrupt_def flt_exact_def exn_unavailable_def

text \<open>
  Claim C10. When the detected tag of a request is none of pdf, pptx, ppt, docx, doc, txt
  (the detector can answer \<^verbatim>\<open>image\<close> and \<^verbatim>\<open>unknown\<close>), the handler calls no
  extractor, leaves the log of service calls as it was, and answers with status 400 and the
  error \<^verbatim>\<open>Unsupported file type\<close>; no canonical model is built.
\<close>

theorem unsupported_type_rejected:
  assumes "receive_file e req = Inr (Some (file_buffer, filename, mimetype))"
    and "detect_file_type filename mimetype
           \<notin> set [''pdf'', ''pptx'', ''ppt'', ''docx'', ''doc'', ''txt'']"
  shows "dispatch e (detect_file_type filename mimetype) file_buffer lg = None
    \<and> extract_endpoint e req lg
       = (Failure 400 (''Unsupported file type: '' @ detect_file_type filename mimetype) None, lg)"
  using assms by (simp add: extract_endpoint_def dispatch_def Let_def)

text \<open>An uploaded \<^verbatim>\<open>photo.png\<close> is detected as \<^verbatim>\<open>image\<close> and rejected.\<close>

theorem unsupported_type_rejected_witness:
  "detect_file_type ''photo.png'' ''image/png'' = ''image''
   \<and> extract_endpoint env_plain (FileUpload ''GIF89a'' (Some ''photo.png'') (Some ''image/png'')) []
       = (Failure 400 ''Unsupported file type: image'' None, [])"
proof -
  have d: "detect_file_type ''photo.png'' ''image/png'' = ''image''"
    by code_simp
  have r: "receive_file env_plain (FileUpload ''GIF89a'' (Some ''photo.png'') (Some ''image/png''))
             = Inr (Some (''GIF89a'', ''photo.png'', ''image/png''))"
    by (simp add: receive_file_def)
  have n: "detect_file_type ''photo.png'' ''image/png''
             \<notin> set [''pdf'', ''pptx'', ''ppt'', ''docx'', ''doc'', ''txt'']"
    by (simp add: d)
  from unsupported_type_rejected [OF r n, of "[]"] d show ?thesis by simp
qed

subsection \<open>The confidence gate of the PDF extractor\<close>

lemma extract_pdf_with_document_ai_log:
  "extract_pdf_with_document_ai e file_buffer lg = (r, lg1) \<Longrightarrow> lg1 = lg @ [DocumentAI]"
  by (auto simp add: extract_pdf_with_document_ai_def Let_def split: sum.splits prod.splits)

lemma extract_pdf_with_document_ai_method:
  "extract_pdf_with_document_ai e file_buffer lg = (Inr result, lg1)
     \<Longrightarrow> r_method result = Some ''document_ai''"
  by (auto simp add: extract_pdf_with_document_ai_def Let_def split: sum.splits prod.splits)

text \<open>
  The Document AI stage on an answer with a table: the first table met makes the loop
  raise, so the stage returns no result for such an answer.
\<close>

lemma da_tables_loop_raises:
  "tbls \<noteq> [] \<Longrightarrow> \<exists>x. da_tables_loop full_text page_num tbls tables = Inl x"
  by (cases tbls) (simp_all add: repeated_add_def)

lemma da_pages_loop_raises:
  "\<exists>page\<in>set pages. dp_tables page \<noteq> []
     \<Longrightarrow> \<exists>x. da_pages_loop full_text pages text_blocks tables = Inl x"
proof (induction pages arbitrary: text_blocks tables)
  case Nil
  then show ?case by simp
next
  case (Cons page pages)
  show ?case
  proof (cases "dp_tables page = []")
    case True
    then have "\<exists>p\<in>set pages. dp_tables p \<noteq> []"
      using Cons.prems by auto
    then show ?thesis
      using True Cons.IH by (simp add: Let_def)
  next
    case False
    then obtain x where "da_tables_loop full_text (dp_page_number page) (dp_tables page) tables = Inl x"
      using da_tables_loop_raises by blast
    then show ?thesis by (simp add: Let_def)
  qed
qed

lemma document_ai_table_raises:
  assumes "documentai_process (svc e) lg file_buffer = Inr document"
    and "\<exists>page\<in>set (doc_pages document). dp_tables page \<noteq> []"
  shows "\<exists>x. extract_pdf_with_document_ai e file_buffer lg = (Inl x, lg @ [DocumentAI])"
proof -
  obtain x where "da_pages_loop (doc_text document) (doc_pages document) [] [] = Inl x"
    using assms(2) da_pages_loop_raises by blast
  then show ?thesis
    using assms(1) by (simp add: extract_pdf_with_document_ai_def)
qed

text \<open>
  Claim C4. With a Document AI processor configured, when
  \<^verbatim>\<open>extract_pdf_with_document_ai\<close> returns a result of confidence at least 0.7,
  \<^verbatim>\<open>extract_pdf\<close> returns that very result; the only call it adds to the log is the
  one to Document AI, so PyMuPDF is not opened, no thumbnail is rendered and no recognition
  tier is called; and the canonical model built from the result has the extraction
  method \<^verbatim>\<open>document_ai\<close>. The confidence is the one of the returned result, the
  average as the float arithmetic computes it; a stage that raises returns no result.
\<close>

theorem document_ai_confident_is_final:
  assumes "DOCUMENT_AI_PROCESSOR_ID (cfg e) \<noteq> ''''"
    and "extract_pdf_with_document_ai e file_buffer lg = (Inr result, lg1)"
    and "get_default (r_confidence result) 0 \<ge> 7/10"
  shows "extract_pdf e file_buffer lg = (Inr result, lg @ [DocumentAI])
    \<and> ex_method (cd_extraction
         (build_canonical_model now result filename file_type file_size request_id))
       = ''document_ai''"
proof -
  have "lg1 = lg @ [DocumentAI]"
    using assms(2) by (rule extract_pdf_with_document_ai_log)
  moreover have "r_method result = Some ''document_ai''"
    using assms(2) by (rule extract_pdf_with_document_ai_method)
  ultimately show ?thesis
    using assms
    by (simp add: extract_pdf_def try_document_ai_def build_canonical_model_def
        get_default_def Let_def)
qed

lemma extract_docai_sample:
  "extract_pdf_with_document_ai env_docai ''%PDF-1.7'' [] = (Inr result_docai, [DocumentAI])"
  by code_simp

lemma extract_docai_table_sample:
  "extract_pdf_with_document_ai env_docai_table ''%PDF'' []
     = (Inl (Exn ''unsupported operand type(s) for +''), [DocumentAI])"
  "extract_pdf env_docai_table ''%PDF'' []
     = (Inr result_pdf_sample, [DocumentAI, FitzOpen, Thumbnail, FitzOpen, Vision, Vision])"
  by code_simp+

text \<open>
  The stage on the answer whose confidences average to 0.7 exactly: the float average is
  below 0.7, so the result is not final and the extractor goes on with PyMuPDF.
\<close>

lemma extract_docai_rounding_sample:
  "sum_list [9/10, 9/10, 1/4, 9/10, 1/4, 1] / 6 = (7/10 :: rat)"
  "map_sum str (\<lambda>result. (r_method result, r_confidence result))
       (fst (extract_pdf_with_document_ai env_docai_rounding ''%PDF'' []))
     = Inr (Some ''document_ai'', Some (6305039478318693 / 9007199254740992))"
  "(6305039478318693 / 9007199254740992 :: rat) < 7/10"
  "extract_pdf env_docai_rounding ''%PDF'' []
     = (Inr result_pdf_sample, [DocumentAI, FitzOpen, Thumbnail, FitzOpen, Vision, Vision])"
  by code_simp+

text \<open>
  A document of two paragraphs of confidence 0.95 each: the result of Document AI is the
  result of the extractor, after one call. On the answer with a table the stage raises,
  and on the answer whose float average is below 0.7 its result is not final: the
  extractor goes on with PyMuPDF.
\<close>

theorem document_ai_confident_is_final_witness:
  "extract_pdf env_docai ''%PDF-1.7'' [] = (Inr result_docai, [DocumentAI])
   \<and> ex_method (cd_extraction (build_canonical_model ''2024-05-01T12:00:00Z'' result_docai
        ''a.pdf'' ''pdf'' 8 ''1b9d6bcd'')) = ''document_ai''
   \<and> extract_pdf_with_document_ai env_docai_table ''%PDF'' []
        = (Inl (Exn ''unsupported operand type(s) for +''), [DocumentAI])
   \<and> extract_pdf env_docai_table ''%PDF'' []
        = (Inr result_pdf_sample, [DocumentAI, FitzOpen, Thumbnail, FitzOpen, Vision, Vision])
   \<and> extract_pdf env_docai_rounding ''%PDF'' []
        = (Inr result_pdf_sample, [DocumentAI, FitzOpen, Thumbnail, FitzOpen, Vision, Vision])"
proof -
  have a: "DOCUMENT_AI_PROCESSOR_ID (cfg env_docai) \<noteq> ''''"
    by (simp add: env_docai_def)
  have c: "get_default (r_confidence result_docai) 0 \<ge> 7/10"
    by (simp add: result_docai_def get_default_def)
  from document_ai_confident_is_final [OF a extract_docai_sample c] extract_docai_table_sample
    extract_docai_rounding_sample(4)
  show ?thesis
    by simp
qed

subsection \<open>Recognition cascade\<close>

lemma vertex_some_nonempty:
  "ocr_with_vertex_gemini e image_data lg = Inr (Some text) \<Longrightarrow> text \<noteq> ''''"
  by (auto simp add: ocr_with_vertex_gemini_def Let_def split: sum.splits if_splits)

lemma generative_tiers_cases:
  "generative_tiers e image_data lg1 =
     (if VERTEX_GEMINI_OCR_ENABLED (cfg e) \<and> \<not> vertex_gave_no_text e image_data lg1
      then (ocr_with_vertex_gemini e image_data lg1, lg1 @ [VertexGemini])
      else if OPENAI_API_KEY (cfg e) \<noteq> ''''
      then ((case ocr_with_openai e image_data
                    (if VERTEX_GEMINI_OCR_ENABLED (cfg e) then lg1 @ [VertexGemini] else lg1) of
               Inl x \<Rightarrow> Inr None | Inr r \<Rightarrow> Inr r),
            (if VERTEX_GEMINI_OCR_ENABLED (cfg e) then lg1 @ [VertexGemini] else lg1) @ [OpenAI])
      else (Inr None, if VERTEX_GEMINI_OCR_ENABLED (cfg e) then lg1 @ [VertexGemini] else lg1))"
  by (auto simp add: generative_tiers_def vertex_gave_no_text_def Let_def
      split: sum.splits option.splits dest: vertex_some_nonempty)

lemma ocr_image_cases:
  "ocr_image e image_data lg =
     (if vision_gave_no_text e image_data lg then generative_tiers e image_data (lg @ [Vision])
      else (case vision_text_detection (svc e) lg image_data of
              Inr text_annotations \<Rightarrow> (Inr (Some (strip (hd text_annotations))), lg @ [Vision])
            | Inl x \<Rightarrow> (Inr None, lg @ [Vision])))"
  by (auto simp add: ocr_image_def vision_gave_no_text_def Let_def split: sum.splits)

text \<open>
  Claim C6. For every image, every configuration and every behaviour of the three
  services, \<^verbatim>\<open>ocr_image\<close> returns and never raises, and what it returns and which
  tiers it calls is the cascade: the stripped first annotation of Cloud Vision when there
  is one, after the call to Cloud Vision only; otherwise, when the Vertex tier is enabled,
  that tier is called, and its text, if it returns one, is the result; otherwise, when an
  API key is set, the API-key tier is called and what it returns is the result (\<open>None\<close>
  when it raises); otherwise the result is \<open>None\<close>, returned as a value. Hence the calls
  are Cloud Vision, then possibly the Vertex tier, then possibly the API-key tier, each at
  most once and in this order; the Vertex tier is called only when it is enabled and Cloud
  Vision failed or found no text; the API-key tier is called only when a key is set, Cloud
  Vision failed or found no text, and the Vertex tier, if enabled, failed or returned no
  text. If Cloud Vision fails and the enabled Vertex tier returns a text, this text is the
  result and the API-key tier is not called.
\<close>

theorem ocr_image_cascade:
  "ocr_image e image_data lg
     = (Inr (cascade_result e image_data lg), lg @ cascade_calls e image_data lg)
   \<and> (\<exists>res. fst (ocr_image e image_data lg) = Inr res)
   \<and> (new_calls lg (snd (ocr_image e image_data lg)) = [Vision]
        \<or> new_calls lg (snd (ocr_image e image_data lg)) = [Vision, VertexGemini]
        \<or> new_calls lg (snd (ocr_image e image_data lg)) = [Vision, OpenAI]
        \<or> new_calls lg (snd (ocr_image e image_data lg)) = [Vision, VertexGemini, OpenAI])
   \<and> snd (ocr_image e image_data lg) = lg @ new_calls lg (snd (ocr_image e image_data lg))
   \<and> (VertexGemini \<in> set (new_calls lg (snd (ocr_image e image_data lg)))
        \<longrightarrow> VERTEX_GEMINI_OCR_ENABLED (cfg e) \<and> vision_gave_no_text e image_data lg)
   \<and> (OpenAI \<in> set (new_calls lg (snd (ocr_image e image_data lg)))
        \<longrightarrow> OPENAI_API_KEY (cfg e) \<noteq> '''' \<and> vision_gave_no_text e image_data lg
            \<and> (VERTEX_GEMINI_OCR_ENABLED (cfg e)
                 \<longrightarrow> vertex_gave_no_text e image_data (lg @ [Vision])))
   \<and> (vision_text_detection (svc e) lg image_data = Inl x
        \<and> VERTEX_GEMINI_OCR_ENABLED (cfg e)
        \<and> ocr_with_vertex_gemini e image_data (lg @ [Vision]) = Inr (Some vertex_text)
        \<longrightarrow> ocr_image e image_data lg = (Inr (Some vertex_text), lg @ [Vision, VertexGemini]))
   \<and> (vision_gave_no_text e image_data lg
        \<and> (VERTEX_GEMINI_OCR_ENABLED (cfg e) \<longrightarrow> vertex_gave_no_text e image_data (lg @ [Vision]))
        \<and> OPENAI_API_KEY (cfg e) = ''''
        \<longrightarrow> fst (ocr_image e image_data lg) = Inr None)"
proof (rule conjI)
  show "ocr_image e image_data lg
     = (Inr (cascade_result e image_data lg), lg @ cascade_calls e image_data lg)"
    by (auto simp add: ocr_image_cases generative_tiers_cases cascade_result_def
        cascade_calls_def log_after_vertex_def vision_gave_no_text_def vertex_gave_no_text_def
        split: sum.splits option.splits list.splits)
qed (auto simp add: ocr_image_cases generative_tiers_cases new_calls_def
      vision_gave_no_text_def vertex_gave_no_text_def
      split: sum.splits option.splits)

text \<open>
  Six runs. Cloud Vision down, the Vertex tier returns \<^verbatim>\<open>Invoice #123\<close>: this is
  the result, and the API-key tier, although configured, is not called; the same when
  Cloud Vision answers with no annotation. Cloud Vision finds nothing, only the API key is
  set: the API-key tier is called and its text returned; the same after a Vertex tier that
  fails. Cloud Vision reads a text: it is the result, after one call. Nothing configured
  and Cloud Vision down: the result is \<open>None\<close>.
\<close>

theorem ocr_image_cascade_witness:
  "vision_text_detection (svc env_cascade) [] ''png'' = Inl exn_unavailable
   \<and> VERTEX_GEMINI_OCR_ENABLED (cfg env_cascade)
   \<and> ocr_with_vertex_gemini env_cascade ''png'' [Vision] = Inr (Some ''Invoice #123'')
   \<and> ocr_image env_cascade ''png'' [] = (Inr (Some ''Invoice #123''), [Vision, VertexGemini])
   \<and> OpenAI \<notin> set (new_calls [] (snd (ocr_image env_cascade ''png'' [])))
   \<and> ocr_image env_openai ''png'' [] = (Inr (Some ''Total: 42''), [Vision, OpenAI])
   \<and> OpenAI \<in> set (new_calls [] (snd (ocr_image env_openai ''png'' [])))
   \<and> OPENAI_API_KEY (cfg env_openai) \<noteq> ''''
   \<and> vision_gave_no_text env_openai ''png'' []
   \<and> vision_gave_no_text env_plain ''png'' []
   \<and> \<not> VERTEX_GEMINI_OCR_ENABLED (cfg env_plain)
   \<and> OPENAI_API_KEY (cfg env_plain) = ''''
   \<and> fst (ocr_image env_plain ''png'' []) = Inr None
   \<and> vision_text_detection (svc env_cascade_empty) [] ''png'' = Inr []
   \<and> ocr_image env_cascade_empty ''png'' [] = (Inr (Some ''Invoice #123''), [Vision, VertexGemini])
   \<and> vertex_gave_no_text env_vertex_down ''png'' [Vision]
   \<and> ocr_image env_vertex_down ''png'' [] = (Inr (Some ''Total: 42''), [Vision, VertexGemini, OpenAI])
   \<and> ocr_image env_files ''img-24'' [] = (Inr (Some ''Total amount due: 42 EUR''), [Vision])"
proof -
  note t = ocr_image_cascade
  have v: "vision_text_detection (svc env_cascade) [] ''png'' = Inl exn_unavailable"
    "VERTEX_GEMINI_OCR_ENABLED (cfg env_cascade)"
    by (simp_all add: env_cascade_def env_plain_simps)
  have g: "ocr_with_vertex_gemini env_cascade ''png'' [Vision] = Inr (Some ''Invoice #123'')"
    by code_simp
  have r1: "ocr_image env_cascade ''png'' [] = (Inr (Some ''Invoice #123''), [Vision, VertexGemini])"
    using t [where e = env_cascade and image_data = "''png''" and lg = "[]"
               and x = exn_unavailable and vertex_text = "''Invoice #123''", THEN conjunct2] v g
    by simp
  have n1: "OpenAI \<notin> set (new_calls [] (snd (ocr_image env_cascade ''png'' [])))"
    by (simp add: r1 new_calls_def)
  have c: "cascade_result env_openai ''png'' [] = Some ''Total: 42''"
    "cascade_calls env_openai ''png'' [] = [Vision, OpenAI]"
    "cascade_result env_cascade_empty ''png'' [] = Some ''Invoice #123''"
    "cascade_calls env_cascade_empty ''png'' [] = [Vision, VertexGemini]"
    "cascade_result env_vertex_down ''png'' [] = Some ''Total: 42''"
    "cascade_calls env_vertex_down ''png'' [] = [Vision, VertexGemini, OpenAI]"
    "cascade_result env_files ''img-24'' [] = Some ''Total amount due: 42 EUR''"
    "cascade_calls env_files ''img-24'' [] = [Vision]"
    by code_simp+
  have o: "ocr_image env_openai ''png'' [] = (Inr (Some ''Total: 42''), [Vision, OpenAI])"
    using t [where e = env_openai and image_data = "''png''" and lg = "[]", THEN conjunct1] c
    by simp
  have m2: "OpenAI \<in> set (new_calls [] (snd (ocr_image env_openai ''png'' [])))"
    by (simp add: o new_calls_def)
  have r2: "OPENAI_API_KEY (cfg env_openai) \<noteq> '''' \<and> vision_gave_no_text env_openai ''png'' []"
    using t [where e = env_openai and image_data = "''png''" and lg = "[]", THEN conjunct2] m2
    by blast
  have p: "vision_gave_no_text env_plain ''png'' []" "OPENAI_API_KEY (cfg env_plain) = ''''"
    "\<not> VERTEX_GEMINI_OCR_ENABLED (cfg env_plain)"
    by (simp_all add: vision_gave_no_text_def env_plain_simps)
  have r3: "fst (ocr_image env_plain ''png'' []) = Inr None"
    using t [where e = env_plain and image_data = "''png''" and lg = "[]", THEN conjunct2] p
    by blast
  have r4: "ocr_image env_cascade_empty ''png'' []
              = (Inr (Some ''Invoice #123''), [Vision, VertexGemini])"
    using t [where e = env_cascade_empty and image_data = "''png''" and lg = "[]",
               THEN conjunct1] c
    by simp
  have r5: "ocr_image env_vertex_down ''png'' []
              = (Inr (Some ''Total: 42''), [Vision, VertexGemini, OpenAI])"
    using t [where e = env_vertex_down and image_data = "''png''" and lg = "[]",
               THEN conjunct1] c
    by simp
  have r6: "ocr_image env_files ''img-24'' [] = (Inr (Some ''Total amount due: 42 EUR''), [Vision])"
    using t [where e = env_files and image_data = "''img-24''" and lg = "[]", THEN conjunct1] c
    by simp
  have s: "vision_text_detection (svc env_cascade_empty) [] ''png'' = Inr []"
    "vertex_gave_no_text env_vertex_down ''png'' [Vision]"
    by code_simp+
  show ?thesis
    using v g r1 n1 o m2 r2 p r3 r4 r5 r6 s by simp
qed

subsection \<open>Sample runs\<close>

text \<open>The extractors and the recognition cascade on the sample inputs.\<close>

lemma sample_runs:
  "extract_pdf env_files ''%PDF'' []
     = (Inr result_pdf_sample, [FitzOpen, Thumbnail, FitzOpen, Vision, Vision])"
  "extract_pdf env_cap ''%PDF'' []
     = (Inr result_pdf_cap, [FitzOpen, Thumbnail, FitzOpen, Vision, Vision])"
  "pdf_pages_loop env_files 0 [pdf_page_text, pdf_page_blank] pdf_locals_init []
     = (None, locals_pdf_loop, [Thumbnail])"
  "try_document_ai env_files ''%PDF'' [] = (None, [])"
  "pymupdf_extraction env_files ''%PDF'' pdf_locals_init []
     = (None, locals_pdf_sample, [FitzOpen, Thumbnail, FitzOpen, Vision, Vision])"
  "extract_pptx env_files ''PK'' [] = (Inr result_pptx_sample, [Vision, Vision])"
  "extract_pptx env_files ''one picture'' [] = (Inr result_pptx_one_picture, [Vision])"
  "extract_docx env_files ''PK'' [] = (Inr result_docx_sample, [Vision, Vision])"
  "extract_txt env_files ''plain text'' [] = (Inr result_txt_sample, [])"
  "ocr_image env_files ''img-20'' [] = (Inr (Some ''exactly twenty chars''), [Vision])"
  "ocr_image env_files ''img-24'' [] = (Inr (Some ''Total amount due: 42 EUR''), [Vision])"
  "ocr_image env_files ''blank'' [] = (Inr None, [Vision])"
  by code_simp+

text \<open>
  The loops of the PPTX and of the DOCX extractor on the slide with a linked picture and
  on the document whose second paragraph has a style without name: the exception leaves
  the loop.
\<close>

lemma sample_body_failures:
  "Presentation (rdr env_files) ''linked picture'' = Inr [slide_linked_picture]"
  "pptx_slides_loop env_files 1 [slide_linked_picture] collected_init []
     = (Inl (Exn ''no embedded image''), [])"
  "Document (rdr env_files) ''no style'' = Inr docx_no_style"
  "docx_paragraphs_loop (dx_paragraphs docx_no_style) []
     = Inl (Exn ''NoneType object has no attribute startswith'')"
  by code_simp+

lemma detect_samples:
  "detect_file_type ''broken.pdf'' ''application/pdf'' = ''pdf''"
  "detect_file_type ''broken.pptx'' '''' = ''pptx''"
  "detect_file_type ''broken.docx'' '''' = ''docx''"
  "detect_file_type ''deck.pptx'' '''' = ''pptx''"
  "detect_file_type ''memo.docx'' '''' = ''docx''"
  "detect_file_type ''notes.txt'' '''' = ''txt''"
  by code_simp+

subsection \<open>Failures of the extractors\<close>

lemma extract_pdf_returns:
  "\<exists>r lg'. extract_pdf e file_buffer lg = (Inr r, lg')"
  by (simp add: extract_pdf_def split: prod.splits option.splits)

lemma extract_txt_returns:
  "\<exists>r. extract_txt e file_buffer lg = (Inr r, lg)"
  by (simp add: extract_txt_def Let_def)

lemma pymupdf_open_fails:
  "fitz_open (rdr e) file_buffer = Inl x
     \<Longrightarrow> pymupdf_extraction e file_buffer st lg = (Some x, st, lg @ [FitzOpen])"
  by (simp add: pymupdf_extraction_def)

text \<open>
  An extractor that raises makes the handler answer with status 500, the message of the
  exception and the request id; the log is the one the extractor leaves.
\<close>

lemma extractor_failure_surfaced:
  assumes "receive_file e req = Inr (Some (file_buffer, filename, mimetype))"
    and "dispatch e (detect_file_type filename mimetype) file_buffer lg = Some (Inl x, lg')"
  shows "extract_endpoint e req lg = (Failure 500 (str x) (Some (take 8 (uuid4 e))), lg')"
  using assms by (simp add: extract_endpoint_def Let_def)

lemma extractor_result_answered:
  assumes "receive_file e req = Inr (Some (file_buffer, filename, mimetype))"
    and "dispatch e (detect_file_type filename mimetype) file_buffer lg = Some (Inr r, lg')"
  shows "\<exists>body. extract_endpoint e req lg = (Success body, lg')"
  using assms by (simp add: extract_endpoint_def Let_def)

text \<open>
  Claim C2, as stated, fails for PDF: PyMuPDF fails to open the upload \<^verbatim>\<open>broken.pdf\<close>
  (no Document AI processor is configured), and the handler answers with a success
  response whose canonical model has the method \<^verbatim>\<open>unknown\<close>, confidence 0 and
  no block. \<^verbatim>\<open>extract_pdf\<close> catches the failure and returns its initial values.
\<close>

theorem corrupt_pdf_returns_canonical:
  "fitz_open (rdr env_plain) ''garbage'' = Inl (Exn ''Failed to open stream'')
   \<and> detect_file_type ''broken.pdf'' ''application/pdf'' = ''pdf''
   \<and> extract_endpoint env_plain
        (FileUpload ''garbage'' (Some ''broken.pdf'') (Some ''application/pdf'')) []
      = (Success
          \<lparr> sb_requestId = ''1b9d6bcd'',
            sb_processingTime = 500,
            sb_canonical =
              \<lparr> cd_id = ''1b9d6bcd'', cd_filename = ''broken.pdf'', cd_file_type = ''pdf'',
                cd_file_size = 7,
                cd_extraction = \<lparr> ex_method = ''unknown'', ex_confidence = 0,
                                  ex_timestamp = ''2024-05-01T12:00:00Z'' \<rparr>,
                cd_structure = \<lparr> st_page_count = 1, st_tables = [], st_images = [] \<rparr>,
                cd_content = \<lparr> ct_text_blocks = [], ct_full_text = '''' \<rparr>,
                cd_stats = \<lparr> total_chars = 0, total_words = 0, total_blocks = 0,
                             total_tables = 0, total_images = 0 \<rparr> \<rparr>,
            sb_metadata = \<lparr> md_filename = ''broken.pdf'', md_fileType = ''pdf'',
                            md_fileSize = 7, md_extractionMethod = ''unknown'',
                            md_confidence = 0 \<rparr> \<rparr>,
         [FitzOpen])"
  by (simp add: extract_endpoint_def receive_file_def detect_samples dispatch_def
      extract_pdf_def try_document_ai_def pymupdf_extraction_def pdf_locals_init_def
      build_canonical_model_def get_default_def split_ws_def trunc_def env_plain_simps Let_def)

text \<open>
  Claim C2, amended. For a request detected as PPTX or DOCX, every exception that leaves
  the extractor makes the handler answer with status 500, the message of the exception
  and the request id, and no canonical model is built; the extractor raises when the
  container reader fails, and also when an exception leaves its body: the loop over the
  slides (a picture shape whose image cannot be read) or the loop over the paragraphs (a
  paragraph whose style has no name). A request detected as TXT or as PDF never gets an
  error response from the extractor. For PDF, when Document AI gives no final result and
  PyMuPDF fails to open the file, the handler answers with a success response whose
  canonical model has the method \<^verbatim>\<open>unknown\<close>, confidence 0, no block and an empty
  text.
\<close>

theorem container_failure_surfaced:
  assumes "receive_file e req = Inr (Some (file_buffer, filename, mimetype))"
  shows
    "(detect_file_type filename mimetype = ''pptx'' \<and> extract_pptx e file_buffer lg = (Inl x, lg')
        \<longrightarrow> extract_endpoint e req lg = (Failure 500 (str x) (Some (take 8 (uuid4 e))), lg'))
     \<and> (detect_file_type filename mimetype = ''docx'' \<and> extract_docx e file_buffer lg = (Inl x, lg')
        \<longrightarrow> extract_endpoint e req lg = (Failure 500 (str x) (Some (take 8 (uuid4 e))), lg'))
     \<and> (Presentation (rdr e) file_buffer = Inl x \<longrightarrow> extract_pptx e file_buffer lg = (Inl x, lg))
     \<and> (Presentation (rdr e) file_buffer = Inr slides
          \<and> pptx_slides_loop e 1 slides collected_init lg = (Inl x, lg')
        \<longrightarrow> extract_pptx e file_buffer lg = (Inl x, lg'))
     \<and> (Document (rdr e) file_buffer = Inl x \<longrightarrow> extract_docx e file_buffer lg = (Inl x, lg))
     \<and> (Document (rdr e) file_buffer = Inr doc
          \<and> docx_paragraphs_loop (dx_paragraphs doc) [] = Inl x
        \<longrightarrow> extract_docx e file_buffer lg = (Inl x, lg))
     \<and> (detect_file_type filename mimetype = ''pptx'' \<and> Presentation (rdr e) file_buffer = Inl x
        \<longrightarrow> extract_endpoint e req lg = (Failure 500 (str x) (Some (take 8 (uuid4 e))), lg))
     \<and> (detect_file_type filename mimetype = ''docx'' \<and> Document (rdr e) file_buffer = Inl x
        \<longrightarrow> extract_endpoint e req lg = (Failure 500 (str x) (Some (take 8 (uuid4 e))), lg))
     \<and> (detect_file_type filename mimetype = ''txt''
        \<longrightarrow> (\<exists>body. extract_endpoint e req lg = (Success body, lg)))
     \<and> (detect_file_type filename mimetype = ''pdf''
        \<longrightarrow> (\<exists>body lg'. extract_endpoint e req lg = (Success body, lg')))
     \<and> (detect_file_type filename mimetype = ''pdf''
          \<and> fst (try_document_ai e file_buffer lg) = None
          \<and> fitz_open (rdr e) file_buffer = Inl x
        \<longrightarrow> (\<exists>body lg'. extract_endpoint e req lg = (Success body, lg')
              \<and> ex_method (cd_extraction (sb_canonical body)) = ''unknown''
              \<and> ex_confidence (cd_extraction (sb_canonical body)) = 0
              \<and> ct_text_blocks (cd_content (sb_canonical body)) = []
              \<and> ct_full_text (cd_content (sb_canonical body)) = ''''))"
proof -
  have a1: "detect_file_type filename mimetype = ''pptx'' \<and> extract_pptx e file_buffer lg = (Inl x, lg')
        \<longrightarrow> extract_endpoint e req lg = (Failure 500 (str x) (Some (take 8 (uuid4 e))), lg')"
    using extractor_failure_surfaced [OF assms, of lg x lg'] by (simp add: dispatch_def)
  have a2: "detect_file_type filename mimetype = ''docx'' \<and> extract_docx e file_buffer lg = (Inl x, lg')
        \<longrightarrow> extract_endpoint e req lg = (Failure 500 (str x) (Some (take 8 (uuid4 e))), lg')"
    using extractor_failure_surfaced [OF assms, of lg x lg'] by (simp add: dispatch_def)
  have b1: "Presentation (rdr e) file_buffer = Inl x \<longrightarrow> extract_pptx e file_buffer lg = (Inl x, lg)"
    by (simp add: extract_pptx_def)
  have b2: "Presentation (rdr e) file_buffer = Inr slides
          \<and> pptx_slides_loop e 1 slides collected_init lg = (Inl x, lg')
        \<longrightarrow> extract_pptx e file_buffer lg = (Inl x, lg')"
    by (simp add: extract_pptx_def)
  have b3: "Document (rdr e) file_buffer = Inl x \<longrightarrow> extract_docx e file_buffer lg = (Inl x, lg)"
    by (simp add: extract_docx_def)
  have b4: "Document (rdr e) file_buffer = Inr doc
          \<and> docx_paragraphs_loop (dx_paragraphs doc) [] = Inl x
        \<longrightarrow> extract_docx e file_buffer lg = (Inl x, lg)"
    by (simp add: extract_docx_def)
  have c1: "detect_file_type filename mimetype = ''pptx'' \<and> Presentation (rdr e) file_buffer = Inl x
        \<longrightarrow> extract_endpoint e req lg = (Failure 500 (str x) (Some (take 8 (uuid4 e))), lg)"
    using extractor_failure_surfaced [OF assms, of lg x lg] b1 by (simp add: dispatch_def)
  have c2: "detect_file_type filename mimetype = ''docx'' \<and> Document (rdr e) file_buffer = Inl x
        \<longrightarrow> extract_endpoint e req lg = (Failure 500 (str x) (Some (take 8 (uuid4 e))), lg)"
    using extractor_failure_surfaced [OF assms, of lg x lg] b3 by (simp add: dispatch_def)
  have d1: "detect_file_type filename mimetype = ''txt''
        \<longrightarrow> (\<exists>body. extract_endpoint e req lg = (Success body, lg))"
  proof
    assume d: "detect_file_type filename mimetype = ''txt''"
    obtain r where "extract_txt e file_buffer lg = (Inr r, lg)"
      using extract_txt_returns by blast
    then show "\<exists>body. extract_endpoint e req lg = (Success body, lg)"
      using extractor_result_answered [OF assms, of lg r lg] d by (simp add: dispatch_def)
  qed
  have d2: "detect_file_type filename mimetype = ''pdf''
        \<longrightarrow> (\<exists>body lg'. extract_endpoint e req lg = (Success body, lg'))"
  proof
    assume d: "detect_file_type filename mimetype = ''pdf''"
    obtain r lg2 where "extract_pdf e file_buffer lg = (Inr r, lg2)"
      using extract_pdf_returns by blast
    then show "\<exists>body lg'. extract_endpoint e req lg = (Success body, lg')"
      using extractor_result_answered [OF assms, of lg r lg2] d by (auto simp add: dispatch_def)
  qed
  have d3: "detect_file_type filename mimetype = ''pdf''
          \<and> fst (try_document_ai e file_buffer lg) = None
          \<and> fitz_open (rdr e) file_buffer = Inl x
        \<longrightarrow> (\<exists>body lg'. extract_endpoint e req lg = (Success body, lg')
              \<and> ex_method (cd_extraction (sb_canonical body)) = ''unknown''
              \<and> ex_confidence (cd_extraction (sb_canonical body)) = 0
              \<and> ct_text_blocks (cd_content (sb_canonical body)) = []
              \<and> ct_full_text (cd_content (sb_canonical body)) = '''')"
  proof
    assume h: "detect_file_type filename mimetype = ''pdf''
          \<and> fst (try_document_ai e file_buffer lg) = None
          \<and> fitz_open (rdr e) file_buffer = Inl x"
    obtain lg1 where t: "try_document_ai e file_buffer lg = (None, lg1)"
      using h by (cases "try_document_ai e file_buffer lg") auto
    have "extract_pdf e file_buffer lg =
            (Inr \<lparr> r_method = Some ''unknown'', r_confidence = Some 0, r_text_blocks = Some [],
                   r_tables = Some [], r_images = Some [], r_page_count = Some 1,
                   r_raw_text = Some '''' \<rparr>, lg1 @ [FitzOpen])"
      using h t by (simp add: extract_pdf_def pymupdf_open_fails pdf_locals_init_def)
    then show "\<exists>body lg'. extract_endpoint e req lg = (Success body, lg')
                \<and> ex_method (cd_extraction (sb_canonical body)) = ''unknown''
                \<and> ex_confidence (cd_extraction (sb_canonical body)) = 0
                \<and> ct_text_blocks (cd_content (sb_canonical body)) = []
                \<and> ct_full_text (cd_content (sb_canonical body)) = ''''"
      using assms h
      by (simp add: extract_endpoint_def dispatch_def build_canonical_model_def get_default_def
          Let_def)
  qed
  from a1 a2 b1 b2 b3 b4 c1 c2 d1 d2 d3 show ?thesis
    by (intro conjI)
qed

text \<open>
  Uploads that no reader can open: \<^verbatim>\<open>broken.pptx\<close> and \<^verbatim>\<open>broken.docx\<close>
  get the response of status 500, \<^verbatim>\<open>broken.pdf\<close> a success response. Uploads
  that the reader opens and whose body raises: the deck with a linked picture and the
  document with a paragraph whose style has no name get the response of status 500 with
  the message of the exception. A text file gets a success response.
\<close>

theorem container_failure_surfaced_witness:
  "extract_endpoint env_plain (FileUpload ''garbage'' (Some ''broken.pptx'') None) []
     = (Failure 500 ''File is not a zip file'' (Some ''1b9d6bcd''), [])
   \<and> extract_endpoint env_plain (FileUpload ''garbage'' (Some ''broken.docx'') None) []
     = (Failure 500 ''File is not a zip file'' (Some ''1b9d6bcd''), [])
   \<and> fst (try_document_ai env_plain ''garbage'' []) = None
   \<and> fitz_open (rdr env_plain) ''garbage'' = Inl (Exn ''Failed to open stream'')
   \<and> (\<exists>body lg'. extract_endpoint env_plain
          (FileUpload ''garbage'' (Some ''broken.pdf'') (Some ''application/pdf'')) []
            = (Success body, lg')
         \<and> ex_method (cd_extraction (sb_canonical body)) = ''unknown''
         \<and> ex_confidence (cd_extraction (sb_canonical body)) = 0
         \<and> ct_text_blocks (cd_content (sb_canonical body)) = []
         \<and> ct_full_text (cd_content (sb_canonical body)) = '''')
   \<and> Presentation (rdr env_files) ''linked picture'' = Inr [slide_linked_picture]
   \<and> extract_pptx env_files ''linked picture'' [] = (Inl (Exn ''no embedded image''), [])
   \<and> extract_endpoint env_files (FileUpload ''linked picture'' (Some ''deck.pptx'') None) []
     = (Failure 500 ''no embedded image'' (Some ''1b9d6bcd''), [])
   \<and> Document (rdr env_files) ''no style'' = Inr docx_no_style
   \<and> extract_docx env_files ''no style'' []
       = (Inl (Exn ''NoneType object has no attribute startswith''), [])
   \<and> extract_endpoint env_files (FileUpload ''no style'' (Some ''memo.docx'') None) []
     = (Failure 500 ''NoneType object has no attribute startswith'' (Some ''1b9d6bcd''), [])
   \<and> (\<exists>body. extract_endpoint env_files (FileUpload ''plain text'' (Some ''notes.txt'') None) []
                = (Success body, []))"
proof -
  have r1: "receive_file env_plain (FileUpload ''garbage'' (Some ''broken.pptx'') None)
              = Inr (Some (''garbage'', ''broken.pptx'', ''''))"
    and r2: "receive_file env_plain (FileUpload ''garbage'' (Some ''broken.docx'') None)
              = Inr (Some (''garbage'', ''broken.docx'', ''''))"
    and r3: "receive_file env_plain
               (FileUpload ''garbage'' (Some ''broken.pdf'') (Some ''application/pdf''))
              = Inr (Some (''garbage'', ''broken.pdf'', ''application/pdf''))"
    and r4: "receive_file env_files (FileUpload ''linked picture'' (Some ''deck.pptx'') None)
              = Inr (Some (''linked picture'', ''deck.pptx'', ''''))"
    and r5: "receive_file env_files (FileUpload ''no style'' (Some ''memo.docx'') None)
              = Inr (Some (''no style'', ''memo.docx'', ''''))"
    and r6: "receive_file env_files (FileUpload ''plain text'' (Some ''notes.txt'') None)
              = Inr (Some (''plain text'', ''notes.txt'', ''''))"
    by (simp_all add: receive_file_def)
  have f: "Presentation (rdr env_plain) ''garbage'' = Inl (Exn ''File is not a zip file'')"
    "Document (rdr env_plain) ''garbage'' = Inl (Exn ''File is not a zip file'')"
    "fitz_open (rdr env_plain) ''garbage'' = Inl (Exn ''Failed to open stream'')"
    "fst (try_document_ai env_plain ''garbage'' []) = None"
    "take 8 (uuid4 env_plain) = ''1b9d6bcd''"
    by (simp_all add: env_plain_simps try_document_ai_def)
  have u: "take 8 (uuid4 env_files) = ''1b9d6bcd''"
    by (simp add: env_files_def env_plain_simps)
  note s = sample_body_failures
  note t1 = container_failure_surfaced [OF r1, where x = "Exn ''File is not a zip file''"
        and lg = "[]"]
  have a: "extract_endpoint env_plain (FileUpload ''garbage'' (Some ''broken.pptx'') None) []
             = (Failure 500 ''File is not a zip file'' (Some ''1b9d6bcd''), [])"
    using t1 [THEN conjunct2, THEN conjunct2, THEN conjunct2, THEN conjunct2, THEN conjunct2, THEN conjunct2, THEN conjunct1] f detect_samples
    by simp
  note t2 = container_failure_surfaced [OF r2, where x = "Exn ''File is not a zip file''"
        and lg = "[]"]
  have b: "extract_endpoint env_plain (FileUpload ''garbage'' (Some ''broken.docx'') None) []
             = (Failure 500 ''File is not a zip file'' (Some ''1b9d6bcd''), [])"
    using t2 [THEN conjunct2, THEN conjunct2, THEN conjunct2, THEN conjunct2, THEN conjunct2, THEN conjunct2, THEN conjunct2, THEN conjunct1] f detect_samples
    by simp
  note t3 = container_failure_surfaced [OF r3, where x = "Exn ''Failed to open stream''"
        and lg = "[]"]
  have c: "\<exists>body lg'. extract_endpoint env_plain
          (FileUpload ''garbage'' (Some ''broken.pdf'') (Some ''application/pdf'')) []
            = (Success body, lg')
         \<and> ex_method (cd_extraction (sb_canonical body)) = ''unknown''
         \<and> ex_confidence (cd_extraction (sb_canonical body)) = 0
         \<and> ct_text_blocks (cd_content (sb_canonical body)) = []
         \<and> ct_full_text (cd_content (sb_canonical body)) = ''''"
    using t3 [THEN conjunct2, THEN conjunct2, THEN conjunct2, THEN conjunct2, THEN conjunct2, THEN conjunct2, THEN conjunct2, THEN conjunct2, THEN conjunct2, THEN conjunct2] f detect_samples
    by simp
  note t4 = container_failure_surfaced [OF r4, where x = "Exn ''no embedded image''"
        and lg = "[]" and lg' = "[]" and slides = "[slide_linked_picture]"]
  have p: "extract_pptx env_files ''linked picture'' [] = (Inl (Exn ''no embedded image''), [])"
    using t4 [THEN conjunct2, THEN conjunct2, THEN conjunct2, THEN conjunct1] s by simp
  have p': "extract_endpoint env_files (FileUpload ''linked picture'' (Some ''deck.pptx'') None) []
     = (Failure 500 ''no embedded image'' (Some ''1b9d6bcd''), [])"
    using t4 [THEN conjunct1] p u detect_samples by simp
  note t5 = container_failure_surfaced [OF r5,
        where x = "Exn ''NoneType object has no attribute startswith''"
        and lg = "[]" and lg' = "[]" and doc = docx_no_style]
  have q: "extract_docx env_files ''no style'' []
             = (Inl (Exn ''NoneType object has no attribute startswith''), [])"
    using t5 [THEN conjunct2, THEN conjunct2, THEN conjunct2, THEN conjunct2, THEN conjunct2, THEN conjunct1] s by simp
  have q': "extract_endpoint env_files (FileUpload ''no style'' (Some ''memo.docx'') None) []
     = (Failure 500 ''NoneType object has no attribute startswith'' (Some ''1b9d6bcd''), [])"
    using t5 [THEN conjunct2, THEN conjunct1] q u detect_samples by simp
  note t6 = container_failure_surfaced [OF r6, where lg = "[]"]
  have w: "\<exists>body. extract_endpoint env_files
                     (FileUpload ''plain text'' (Some ''notes.txt'') None) [] = (Success body, [])"
    using t6 [THEN conjunct2, THEN conjunct2, THEN conjunct2, THEN conjunct2, THEN conjunct2, THEN conjunct2, THEN conjunct2, THEN conjunct2, THEN conjunct1] detect_samples by simp
  show ?thesis
    by (intro conjI; fact a b c f p p' q q' w s)
qed

subsection \<open>The raw text of a result\<close>

text \<open>
  Claim C5, as stated, fails for the Document AI extractor: its raw text is the text of
  the service's document, here the lines \<^verbatim>\<open>Hello\<close> and \<^verbatim>\<open>World\<close> each followed by
  one newline, while the stripped paragraphs joined by two newlines are \<^verbatim>\<open>Hello\<close>,
  two newlines, \<^verbatim>\<open>World\<close>.
\<close>

theorem document_ai_raw_text_not_joined:
  "extract_pdf env_docai ''%PDF-1.7'' [] = (Inr result_docai, [DocumentAI])
   \<and> r_raw_text result_docai = Some (''Hello'' @ nl @ ''World'' @ nl)
   \<and> join (nl @ nl) (map tb_text (get_default (r_text_blocks result_docai) []))
       = ''Hello'' @ nl @ nl @ ''World''
   \<and> \<not> raw_text_is_joined result_docai"
  by code_simp

lemma pymupdf_completed_joined:
  "pymupdf_extraction e file_buffer st0 lg = (None, st, lg')
     \<Longrightarrow> l_raw_text st = join (nl @ nl) (map tb_text (l_text_blocks st))"
  by (auto simp add: pymupdf_extraction_def Let_def
      split: sum.splits prod.splits option.splits if_splits)

text \<open>
  Claim C5, amended. The raw text is the texts of the blocks joined by two newlines, in
  block order, for every result of the PPTX, DOCX and TXT extractors, and for every result
  of the PDF extractor that comes from a local extraction that ran to its end without an
  exception. The result of the Document AI extractor carries the text of the service's
  document as its raw text.
\<close>

theorem raw_text_joined_except_document_ai:
  "(extract_pptx e file_buffer lg = (Inr r, lg') \<longrightarrow> raw_text_is_joined r)
   \<and> (extract_docx e file_buffer lg = (Inr r, lg') \<longrightarrow> raw_text_is_joined r)
   \<and> (extract_txt e file_buffer lg = (Inr r, lg') \<longrightarrow> raw_text_is_joined r)
   \<and> (try_document_ai e file_buffer lg = (None, lg1)
        \<and> pymupdf_extraction e file_buffer pdf_locals_init lg1 = (None, st, lg')
        \<longrightarrow> (\<exists>r'. extract_pdf e file_buffer lg = (Inr r', lg') \<and> raw_text_is_joined r'))
   \<and> (extract_pdf_with_document_ai e file_buffer lg = (Inr r, lg')
        \<longrightarrow> (\<exists>document. documentai_process (svc e) lg file_buffer = Inr document
               \<and> r_raw_text r = Some (doc_text document)))"
proof (intro conjI impI)
  assume "extract_pptx e file_buffer lg = (Inr r, lg')"
  then show "raw_text_is_joined r"
    by (auto simp add: extract_pptx_def raw_text_is_joined_def get_default_def
        split: sum.splits prod.splits)
next
  assume "extract_docx e file_buffer lg = (Inr r, lg')"
  then show "raw_text_is_joined r"
    by (auto simp add: extract_docx_def raw_text_is_joined_def get_default_def Let_def
        split: sum.splits prod.splits)
next
  assume "extract_txt e file_buffer lg = (Inr r, lg')"
  then show "raw_text_is_joined r"
    by (auto simp add: extract_txt_def raw_text_is_joined_def get_default_def Let_def)
next
  assume h: "try_document_ai e file_buffer lg = (None, lg1)
        \<and> pymupdf_extraction e file_buffer pdf_locals_init lg1 = (None, st, lg')"
  then have "l_raw_text st = join (nl @ nl) (map tb_text (l_text_blocks st))"
    using pymupdf_completed_joined by blast
  then show "\<exists>r'. extract_pdf e file_buffer lg = (Inr r', lg') \<and> raw_text_is_joined r'"
    using h by (simp add: extract_pdf_def raw_text_is_joined_def get_default_def)
next
  assume "extract_pdf_with_document_ai e file_buffer lg = (Inr r, lg')"
  then show "\<exists>document. documentai_process (svc e) lg file_buffer = Inr document
               \<and> r_raw_text r = Some (doc_text document)"
    by (auto simp add: extract_pdf_with_document_ai_def Let_def split: sum.splits prod.splits)
qed

text \<open>The amended claim on the sample deck, document, text file and PDFs.\<close>

theorem raw_text_joined_except_document_ai_witness:
  "extract_pptx env_files ''PK'' [] = (Inr result_pptx_sample, [Vision, Vision])
   \<and> raw_text_is_joined result_pptx_sample
   \<and> extract_docx env_files ''PK'' [] = (Inr result_docx_sample, [Vision, Vision])
   \<and> raw_text_is_joined result_docx_sample
   \<and> extract_txt env_files ''plain text'' [] = (Inr result_txt_sample, [])
   \<and> raw_text_is_joined result_txt_sample
   \<and> try_document_ai env_files ''%PDF'' [] = (None, [])
   \<and> pymupdf_extraction env_files ''%PDF'' pdf_locals_init []
       = (None, locals_pdf_sample, [FitzOpen, Thumbnail, FitzOpen, Vision, Vision])
   \<and> (\<exists>r'. extract_pdf env_files ''%PDF'' []
               = (Inr r', [FitzOpen, Thumbnail, FitzOpen, Vision, Vision])
            \<and> raw_text_is_joined r')
   \<and> extract_pdf_with_document_ai env_docai ''%PDF-1.7'' [] = (Inr result_docai, [DocumentAI])
   \<and> (\<exists>document. documentai_process (svc env_docai) [] ''%PDF-1.7'' = Inr document
            \<and> r_raw_text result_docai = Some (doc_text document))"
proof -
  note t = raw_text_joined_except_document_ai
  have a: "raw_text_is_joined result_pptx_sample"
    using t [where e = env_files and file_buffer = "''PK''" and lg = "[]"
                 and r = result_pptx_sample and lg' = "[Vision, Vision]"] sample_runs(6)
    by blast
  have b: "raw_text_is_joined result_docx_sample"
    using t [where e = env_files and file_buffer = "''PK''" and lg = "[]"
                 and r = result_docx_sample and lg' = "[Vision, Vision]"] sample_runs(8)
    by blast
  have c: "raw_text_is_joined result_txt_sample"
    using t [where e = env_files and file_buffer = "''plain text''" and lg = "[]"
                 and r = result_txt_sample and lg' = "[]"] sample_runs(9)
    by blast
  have d: "\<exists>r'. extract_pdf env_files ''%PDF'' []
               = (Inr r', [FitzOpen, Thumbnail, FitzOpen, Vision, Vision])
            \<and> raw_text_is_joined r'"
    using t [where e = env_files and file_buffer = "''%PDF''" and lg = "[]" and ?lg1.0 = "[]"
                 and st = locals_pdf_sample
                 and lg' = "[FitzOpen, Thumbnail, FitzOpen, Vision, Vision]"]
      sample_runs(4) sample_runs(5)
    by blast
  have f: "\<exists>document. documentai_process (svc env_docai) [] ''%PDF-1.7'' = Inr document
            \<and> r_raw_text result_docai = Some (doc_text document)"
    using t [where e = env_docai and file_buffer = "''%PDF-1.7''" and lg = "[]"
                 and r = result_docai and lg' = "[DocumentAI]"] extract_docai_sample
    by blast
  show ?thesis
    using a b c d f sample_runs(4,5,6,8,9) extract_docai_sample by blast
qed

subsection \<open>Recognised text of embedded images\<close>

lemma image_ocr_blocks_long_append:
  "image_ocr_blocks_long (xs @ ys) = (image_ocr_blocks_long xs \<and> image_ocr_blocks_long ys)"
  by (auto simp add: image_ocr_blocks_long_def)

lemma pptx_shape_image_long:
  "image_ocr_blocks_long (c_text_blocks acc)
     \<Longrightarrow> pptx_shape_image e slide_num blob acc lg = (acc', lg')
     \<Longrightarrow> image_ocr_blocks_long (c_text_blocks acc')"
  by (auto simp add: pptx_shape_image_def image_ocr_blocks_long_def
      split: sum.splits option.splits if_splits prod.splits)

lemma pptx_shape_step_long:
  "image_ocr_blocks_long (c_text_blocks acc)
     \<Longrightarrow> pptx_shape_step e slide_num shape slide_texts acc lg = (Inr (slide_texts', acc'), lg')
     \<Longrightarrow> image_ocr_blocks_long (c_text_blocks acc')"
  unfolding pptx_shape_step_def Let_def
  by (auto simp add: image_ocr_blocks_long_append
      split: shape_image.splits if_splits prod.splits dest!: pptx_shape_image_long [rotated])
     (auto simp add: image_ocr_blocks_long_def)

lemma pptx_shapes_loop_long:
  "image_ocr_blocks_long (c_text_blocks acc)
     \<Longrightarrow> pptx_shapes_loop e slide_num shapes slide_texts acc lg = (Inr acc', lg')
     \<Longrightarrow> image_ocr_blocks_long (c_text_blocks acc')"
proof (induction shapes arbitrary: slide_texts acc lg)
  case Nil
  then show ?case by simp
next
  case (Cons shape shapes)
  obtain res lg1 where s: "pptx_shape_step e slide_num shape slide_texts acc lg = (res, lg1)"
    by (metis surj_pair)
  show ?case
  proof (cases res)
    case (Inl x)
    then show ?thesis using Cons.prems(2) s by simp
  next
    case (Inr p)
    obtain t1 acc1 where p: "p = (t1, acc1)"
      by (metis surj_pair)
    have "image_ocr_blocks_long (c_text_blocks acc1)"
      using Cons.prems(1) s Inr p pptx_shape_step_long by blast
    moreover have "pptx_shapes_loop e slide_num shapes t1 acc1 lg1 = (Inr acc', lg')"
      using Cons.prems(2) s Inr p by simp
    ultimately show ?thesis by (rule Cons.IH)
  qed
qed

lemma pptx_notes_long:
  "image_ocr_blocks_long (c_text_blocks acc)
     \<Longrightarrow> image_ocr_blocks_long (c_text_blocks (pptx_notes slide_num slide acc))"
  by (auto simp add: pptx_notes_def Let_def image_ocr_blocks_long_def split: option.splits)

lemma pptx_slides_loop_long:
  "image_ocr_blocks_long (c_text_blocks acc)
     \<Longrightarrow> pptx_slides_loop e slide_num slides acc lg = (Inr acc', lg')
     \<Longrightarrow> image_ocr_blocks_long (c_text_blocks acc')"
proof (induction slides arbitrary: slide_num acc lg)
  case Nil
  then show ?case by simp
next
  case (Cons slide slides)
  obtain res lg1 where s: "pptx_shapes_loop e slide_num (sl_shapes slide) [] acc lg = (res, lg1)"
    by (metis surj_pair)
  show ?case
  proof (cases res)
    case (Inl x)
    then show ?thesis using Cons.prems(2) s by simp
  next
    case (Inr acc1)
    have "image_ocr_blocks_long (c_text_blocks acc1)"
      using Cons.prems(1) s Inr pptx_shapes_loop_long by blast
    then have "image_ocr_blocks_long (c_text_blocks (pptx_notes slide_num slide acc1))"
      by (rule pptx_notes_long)
    moreover have "pptx_slides_loop e (slide_num + 1) slides (pptx_notes slide_num slide acc1) lg1
                     = (Inr acc', lg')"
      using Cons.prems(2) s Inr by simp
    ultimately show ?thesis by (rule Cons.IH)
  qed
qed

lemma extract_pptx_long:
  assumes "extract_pptx e file_buffer lg = (Inr r, lg')"
  shows "image_ocr_blocks_long (get_default (r_text_blocks r) [])"
proof (cases "Presentation (rdr e) file_buffer")
  case (Inl x)
  then show ?thesis using assms by (simp add: extract_pptx_def)
next
  case (Inr slides)
  obtain res lg1 where l: "pptx_slides_loop e 1 slides collected_init lg = (res, lg1)"
    by (metis surj_pair)
  show ?thesis
  proof (cases res)
    case (Inl x)
    then show ?thesis using assms Inr l by (simp add: extract_pptx_def)
  next
    case (Inr acc)
    have "image_ocr_blocks_long (c_text_blocks collected_init)"
      by (simp add: collected_init_def image_ocr_blocks_long_def)
    then have "image_ocr_blocks_long (c_text_blocks acc)"
      using l Inr pptx_slides_loop_long by blast
    moreover have "r_text_blocks r = Some (c_text_blocks acc)"
      using assms \<open>Presentation (rdr e) file_buffer = Inr slides\<close> l Inr
      by (auto simp add: extract_pptx_def)
    ultimately show ?thesis by (simp add: get_default_def)
  qed
qed

lemma docx_paragraphs_loop_long:
  "image_ocr_blocks_long text_blocks
     \<Longrightarrow> docx_paragraphs_loop paras text_blocks = Inr text_blocks'
     \<Longrightarrow> image_ocr_blocks_long text_blocks'"
proof (induction paras arbitrary: text_blocks)
  case Nil
  then show ?case by simp
next
  case (Cons para paras)
  show ?case
  proof (cases "strip (dpar_text para) = ''''")
    case True
    then have "docx_paragraphs_loop paras text_blocks = Inr text_blocks'"
      using Cons.prems(2) by simp
    with Cons.prems(1) show ?thesis by (rule Cons.IH)
  next
    case False
    show ?thesis
    proof (cases "dpar_style_name para")
      case (Inl x)
      then show ?thesis using Cons.prems(2) False by simp
    next
      case (Inr style_name)
      let ?b = "\<lparr> tb_text = strip (dpar_text para), tb_page = 1, tb_confidence = 95/100,
                  tb_type = (if prefix ''Heading'' style_name
                             then ''heading'' else ''paragraph'') \<rparr>"
      have "image_ocr_blocks_long (text_blocks @ [?b])"
        using Cons.prems(1) by (simp add: image_ocr_blocks_long_def)
      moreover have "docx_paragraphs_loop paras (text_blocks @ [?b]) = Inr text_blocks'"
        using Cons.prems(2) False Inr by (simp add: Let_def)
      ultimately show ?thesis by (rule Cons.IH)
    qed
  qed
qed

lemma docx_tables_loop_long:
  "image_ocr_blocks_long (c_text_blocks acc)
     \<Longrightarrow> image_ocr_blocks_long (c_text_blocks (docx_tables_loop tbls acc))"
proof (induction tbls arbitrary: acc)
  case Nil
  then show ?case by simp
next
  case (Cons tbl tbls)
  show ?case
    unfolding docx_tables_loop.simps Let_def
    by (rule Cons.IH) (insert Cons.prems, auto simp add: image_ocr_blocks_long_def)
qed

lemma docx_rel_image_long:
  "image_ocr_blocks_long (c_text_blocks acc)
     \<Longrightarrow> docx_rel_image e blob acc lg = (acc', lg')
     \<Longrightarrow> image_ocr_blocks_long (c_text_blocks acc')"
  by (auto simp add: docx_rel_image_def image_ocr_blocks_long_def nl_def
      split: sum.splits option.splits if_splits prod.splits)

lemma docx_rels_loop_long:
  "image_ocr_blocks_long (c_text_blocks acc)
     \<Longrightarrow> docx_rels_loop e rels acc lg = (acc', lg')
     \<Longrightarrow> image_ocr_blocks_long (c_text_blocks acc')"
proof (induction rels arbitrary: acc lg)
  case Nil
  then show ?case by simp
next
  case (Cons rel rels)
  show ?case
  proof (cases "contains ''image'' (rel_target_ref rel)")
    case True
    obtain acc1 lg1 where s: "docx_rel_image e (rel_blob rel) acc lg = (acc1, lg1)"
      by (metis surj_pair)
    have "image_ocr_blocks_long (c_text_blocks acc1)"
      using Cons.prems(1) s by (rule docx_rel_image_long)
    moreover have "docx_rels_loop e rels acc1 lg1 = (acc', lg')"
      using Cons.prems(2) s True by simp
    ultimately show ?thesis by (rule Cons.IH)
  next
    case False
    then have "docx_rels_loop e rels acc lg = (acc', lg')"
      using Cons.prems(2) by simp
    with Cons.prems(1) show ?thesis by (rule Cons.IH)
  qed
qed

lemma extract_docx_long:
  assumes "extract_docx e file_buffer lg = (Inr r, lg')"
  shows "image_ocr_blocks_long (get_default (r_text_blocks r) [])"
proof (cases "Document (rdr e) file_buffer")
  case (Inl x)
  then show ?thesis using assms by (simp add: extract_docx_def)
next
  case (Inr doc)
  show ?thesis
  proof (cases "docx_paragraphs_loop (dx_paragraphs doc) []")
    case (Inl x)
    then show ?thesis
      using assms \<open>Document (rdr e) file_buffer = Inr doc\<close> by (simp add: extract_docx_def)
  next
    case pl: (Inr text_blocks)
    let ?acc1 = "collected_init\<lparr> c_text_blocks := text_blocks \<rparr>"
    let ?acc2 = "docx_tables_loop (dx_tables doc) ?acc1"
    obtain acc lg1 where l: "docx_rels_loop e (dx_rels doc) ?acc2 lg = (acc, lg1)"
      by (metis surj_pair)
    have "image_ocr_blocks_long []"
      by (simp add: image_ocr_blocks_long_def)
    then have "image_ocr_blocks_long text_blocks"
      using pl by (rule docx_paragraphs_loop_long)
    then have "image_ocr_blocks_long (c_text_blocks ?acc1)"
      by simp
    then have "image_ocr_blocks_long (c_text_blocks ?acc2)"
      by (rule docx_tables_loop_long)
    then have "image_ocr_blocks_long (c_text_blocks acc)"
      using l by (rule docx_rels_loop_long)
    moreover have "r_text_blocks r = Some (c_text_blocks acc)"
      using assms \<open>Document (rdr e) file_buffer = Inr doc\<close> pl l
      by (auto simp add: extract_docx_def Let_def)
    ultimately show ?thesis by (simp add: get_default_def)
  qed
qed

text \<open>
  Claim C7, as stated, fails at the threshold: Cloud Vision reads the 20 characters
  \<^verbatim>\<open>exactly twenty chars\<close> in the only picture of a deck, and the PPTX extractor
  returns no block; the DOCX extractor drops the same text. The test in both extractors
  is \<^verbatim>\<open>len(ocr_text) > 20\<close>.
\<close>

theorem ocr_text_of_20_characters_gives_no_block:
  "ocr_image env_files ''img-20'' [] = (Inr (Some ''exactly twenty chars''), [Vision])
   \<and> length ''exactly twenty chars'' = 20
   \<and> Presentation (rdr env_files) ''one picture'' = Inr [slide_one_picture]
   \<and> sl_shapes slide_one_picture
       = [\<lparr> sh_has_text_frame = False, sh_paragraphs = [], sh_has_table = False,
            sh_table_rows = [], sh_image = HasImage (Inr ''img-20'') \<rparr>]
   \<and> extract_pptx env_files ''one picture'' [] = (Inr result_pptx_one_picture, [Vision])
   \<and> r_text_blocks result_pptx_one_picture = Some []
   \<and> docx_rel_image env_files (Inr ''img-20'') collected_init [] = (collected_init, [Vision])"
  by code_simp

text \<open>
  Claim C7, amended. In the PPTX and DOCX extractors, a text recognised in an embedded
  image gives a block of type \<^verbatim>\<open>image_ocr\<close> with confidence 0.7, and an image
  record, exactly when it has more than 20 characters (the DOCX block has the text after
  the marker \<^verbatim>\<open>[Image Text]\<close> and a newline); a text of 20 characters or fewer, and
  no text at all, give no block. Hence every \<^verbatim>\<open>image_ocr\<close> block of a result of
  either extractor has confidence 0.7 and more than 20 characters.
\<close>

theorem image_ocr_block_needs_more_than_20:
  "(ocr_image e image_bytes lg = (Inr (Some ocr_text), lg1) \<longrightarrow>
      pptx_shape_image e slide_num (Inr image_bytes) acc lg =
        (if 20 < length ocr_text
         then (acc\<lparr> c_text_blocks := c_text_blocks acc @
                      [\<lparr> tb_text = ocr_text, tb_page = slide_num,
                         tb_confidence = 7/10, tb_type = ''image_ocr'' \<rparr>],
                    c_images := c_images acc @
                      [\<lparr> img_page = Some slide_num, img_type = None, img_data_url = None,
                         img_caption = None, img_ocr_text = Some ocr_text \<rparr>] \<rparr>, lg1)
         else (acc, lg1))
      \<and> docx_rel_image e (Inr image_bytes) acc lg =
        (if 20 < length ocr_text
         then (acc\<lparr> c_text_blocks := c_text_blocks acc @
                      [\<lparr> tb_text = ''[Image Text]'' @ nl @ ocr_text, tb_page = 1,
                         tb_confidence = 7/10, tb_type = ''image_ocr'' \<rparr>],
                    c_images := c_images acc @
                      [\<lparr> img_page = None, img_type = None, img_data_url = None,
                         img_caption = None, img_ocr_text = Some ocr_text \<rparr>] \<rparr>, lg1)
         else (acc, lg1)))
   \<and> (ocr_image e image_bytes lg = (Inr None, lg1) \<longrightarrow>
      pptx_shape_image e slide_num (Inr image_bytes) acc lg = (acc, lg1)
      \<and> docx_rel_image e (Inr image_bytes) acc lg = (acc, lg1))
   \<and> (extract_pptx e file_buffer lg0 = (Inr r, lg2)
        \<longrightarrow> image_ocr_blocks_long (get_default (r_text_blocks r) []))
   \<and> (extract_docx e file_buffer lg0 = (Inr r, lg2)
        \<longrightarrow> image_ocr_blocks_long (get_default (r_text_blocks r) []))"
proof (intro conjI impI)
  assume "extract_pptx e file_buffer lg0 = (Inr r, lg2)"
  then show "image_ocr_blocks_long (get_default (r_text_blocks r) [])"
    by (rule extract_pptx_long)
next
  assume "extract_docx e file_buffer lg0 = (Inr r, lg2)"
  then show "image_ocr_blocks_long (get_default (r_text_blocks r) [])"
    by (rule extract_docx_long)
qed (auto simp add: pptx_shape_image_def docx_rel_image_def)

text \<open>
  Pictures with 24 characters, 20 characters and no text, and the sample deck and document.
\<close>

theorem image_ocr_block_needs_more_than_20_witness:
  "ocr_image env_files ''img-24'' [] = (Inr (Some ''Total amount due: 42 EUR''), [Vision])
   \<and> pptx_shape_image env_files 1 (Inr ''img-24'') collected_init []
       = (collected_init
            \<lparr> c_text_blocks := [\<lparr> tb_text = ''Total amount due: 42 EUR'', tb_page = 1,
                                   tb_confidence = 7/10, tb_type = ''image_ocr'' \<rparr>],
              c_images := [\<lparr> img_page = Some 1, img_type = None, img_data_url = None,
                              img_caption = None,
                              img_ocr_text = Some ''Total amount due: 42 EUR'' \<rparr>] \<rparr>,
          [Vision])
   \<and> docx_rel_image env_files (Inr ''img-24'') collected_init []
       = (collected_init
            \<lparr> c_text_blocks := [\<lparr> tb_text = ''[Image Text]'' @ nl @ ''Total amount due: 42 EUR'',
                                   tb_page = 1, tb_confidence = 7/10,
                                   tb_type = ''image_ocr'' \<rparr>],
              c_images := [\<lparr> img_page = None, img_type = None, img_data_url = None,
                              img_caption = None,
                              img_ocr_text = Some ''Total amount due: 42 EUR'' \<rparr>] \<rparr>,
          [Vision])
   \<and> ocr_image env_files ''img-20'' [] = (Inr (Some ''exactly twenty chars''), [Vision])
   \<and> pptx_shape_image env_files 1 (Inr ''img-20'') collected_init [] = (collected_init, [Vision])
   \<and> ocr_image env_files ''blank'' [] = (Inr None, [Vision])
   \<and> pptx_shape_image env_files 1 (Inr ''blank'') collected_init [] = (collected_init, [Vision])
   \<and> docx_rel_image env_files (Inr ''blank'') collected_init [] = (collected_init, [Vision])
   \<and> extract_pptx env_files ''PK'' [] = (Inr result_pptx_sample, [Vision, Vision])
   \<and> image_ocr_blocks_long (get_default (r_text_blocks result_pptx_sample) [])
   \<and> extract_docx env_files ''PK'' [] = (Inr result_docx_sample, [Vision, Vision])
   \<and> image_ocr_blocks_long (get_default (r_text_blocks result_docx_sample) [])"
proof -
  note t = image_ocr_block_needs_more_than_20
  have l: "20 < length ''Total amount due: 42 EUR''" "\<not> 20 < length ''exactly twenty chars''"
    by simp_all
  have a: "pptx_shape_image env_files 1 (Inr ''img-24'') collected_init []
       = (collected_init
            \<lparr> c_text_blocks := [\<lparr> tb_text = ''Total amount due: 42 EUR'', tb_page = 1,
                                   tb_confidence = 7/10, tb_type = ''image_ocr'' \<rparr>],
              c_images := [\<lparr> img_page = Some 1, img_type = None, img_data_url = None,
                              img_caption = None,
                              img_ocr_text = Some ''Total amount due: 42 EUR'' \<rparr>] \<rparr>,
          [Vision])"
    and b: "docx_rel_image env_files (Inr ''img-24'') collected_init []
       = (collected_init
            \<lparr> c_text_blocks := [\<lparr> tb_text = ''[Image Text]'' @ nl @ ''Total amount due: 42 EUR'',
                                   tb_page = 1, tb_confidence = 7/10,
                                   tb_type = ''image_ocr'' \<rparr>],
              c_images := [\<lparr> img_page = None, img_type = None, img_data_url = None,
                              img_caption = None,
                              img_ocr_text = Some ''Total amount due: 42 EUR'' \<rparr>] \<rparr>,
          [Vision])"
    using t [where e = env_files and image_bytes = "''img-24''" and lg = "[]"
                 and ocr_text = "''Total amount due: 42 EUR''" and ?lg1.0 = "[Vision]"
                 and slide_num = 1 and acc = collected_init]
      sample_runs(11) l
    by (simp_all add: collected_init_def)
  have c: "pptx_shape_image env_files 1 (Inr ''img-20'') collected_init [] = (collected_init, [Vision])"
    using t [where e = env_files and image_bytes = "''img-20''" and lg = "[]"
                 and ocr_text = "''exactly twenty chars''" and ?lg1.0 = "[Vision]"
                 and slide_num = 1 and acc = collected_init]
      sample_runs(10) l
    by simp
  have d: "pptx_shape_image env_files 1 (Inr ''blank'') collected_init [] = (collected_init, [Vision])"
    "docx_rel_image env_files (Inr ''blank'') collected_init [] = (collected_init, [Vision])"
    using t [where e = env_files and image_bytes = "''blank''" and lg = "[]"
                 and ?lg1.0 = "[Vision]" and slide_num = 1 and acc = collected_init]
      sample_runs(12)
    by blast+
  have f: "image_ocr_blocks_long (get_default (r_text_blocks result_pptx_sample) [])"
    using t [where e = env_files and file_buffer = "''PK''" and ?lg0.0 = "[]"
                 and r = result_pptx_sample and ?lg2.0 = "[Vision, Vision]"]
      sample_runs(6)
    by blast
  have g: "image_ocr_blocks_long (get_default (r_text_blocks result_docx_sample) [])"
    using t [where e = env_files and file_buffer = "''PK''" and ?lg0.0 = "[]"
                 and r = result_docx_sample and ?lg2.0 = "[Vision, Vision]"]
      sample_runs(8)
    by blast
  show ?thesis
    using a b c d f g sample_runs(6,8,10,11,12) by blast
qed

subsection \<open>Page thumbnails\<close>

lemma dropWhile_rev_dropWhile:
  "dropWhile P (rev (dropWhile P (rev (dropWhile P s)))) = rev (dropWhile P (rev (dropWhile P s)))"
proof -
  define a where "a = dropWhile P s"
  define b where "b = rev (dropWhile P (rev a))"
  have ab: "a = b @ rev (takeWhile P (rev a))"
    unfolding b_def by (metis rev_append rev_rev_ident takeWhile_dropWhile_id)
  have "dropWhile P b = b"
  proof (cases b)
    case Nil
    then show ?thesis by simp
  next
    case (Cons x xs)
    then obtain c where "a = x # c" using ab by simp
    then have "a \<noteq> []" "hd a = x" by simp_all
    then have "\<not> P x" unfolding a_def using hd_dropWhile by metis
    then show ?thesis using Cons by simp
  qed
  then show ?thesis by (simp add: a_def b_def)
qed

lemma strip_strip: "strip (strip s) = strip s"
  by (simp add: strip_def dropWhile_rev_dropWhile)

lemma ocr_with_vertex_stripped:
  "ocr_with_vertex_gemini e image_data lg = Inr (Some t) \<Longrightarrow> strip t = t"
  by (auto simp add: ocr_with_vertex_gemini_def Let_def strip_strip split: sum.splits if_splits)

lemma ocr_with_openai_stripped:
  "ocr_with_openai e image_data lg = Inr (Some t) \<Longrightarrow> strip t = t"
  by (auto simp add: ocr_with_openai_def strip_strip split: sum.splits if_splits)

lemma generative_tiers_stripped:
  "generative_tiers e image_data lg = (Inr (Some t), lg') \<Longrightarrow> strip t = t"
  by (auto simp add: generative_tiers_def Let_def
      dest: ocr_with_vertex_stripped ocr_with_openai_stripped
      split: sum.splits option.splits if_splits)

lemma ocr_image_stripped:
  "ocr_image e image_data lg = (Inr (Some t), lg') \<Longrightarrow> strip t = t"
  by (auto simp add: ocr_image_def Let_def strip_strip dest: generative_tiers_stripped
      split: sum.splits if_splits)

lemma ocr_page_images_blocks:
  "ocr_page_images e n imgs tbs lg = (tbs', lg')
     \<Longrightarrow> \<exists>new. tbs' = tbs @ new
            \<and> (\<forall>b\<in>set new. tb_page b = n + 1 \<and> strip (tb_text b) = tb_text b)"
proof (induction imgs arbitrary: tbs lg)
  case Nil
  then show ?case by simp
next
  case (Cons img imgs)
  show ?case
  proof (cases img)
    case (Inl x)
    then show ?thesis using Cons by simp
  next
    case (Inr img_data)
    obtain res lg1 where o: "ocr_image e img_data lg = (res, lg1)"
      by (cases "ocr_image e img_data lg")
    show ?thesis
    proof (cases "\<exists>t. res = Inr (Some t) \<and> t \<noteq> ''''")
      case True
      then obtain t where t: "res = Inr (Some t)" "t \<noteq> ''''" by blast
      have s: "strip t = t" using o t ocr_image_stripped by blast
      from Cons.prems Inr o t
      have "ocr_page_images e n imgs
              (tbs @ [\<lparr> tb_text = t, tb_page = n + 1, tb_confidence = 7/10,
                         tb_type = ''ocr'' \<rparr>]) lg1 = (tbs', lg')"
        by simp
      from Cons.IH [OF this] obtain new where
        "tbs' = (tbs @ [\<lparr> tb_text = t, tb_page = n + 1, tb_confidence = 7/10,
                          tb_type = ''ocr'' \<rparr>]) @ new"
        "\<forall>b\<in>set new. tb_page b = n + 1 \<and> strip (tb_text b) = tb_text b"
        by blast
      then show ?thesis using s by auto
    next
      case False
      with Cons.prems Inr o have "ocr_page_images e n imgs tbs lg1 = (tbs', lg')"
        by (auto split: sum.splits option.splits if_splits)
      from Cons.IH [OF this] show ?thesis .
    qed
  qed
qed

lemma pdf_page_thumbnail_effect:
  assumes "pdf_page_thumbnail e n page st lg = (st', lg')"
  shows "l_text_blocks st' = l_text_blocks st
           \<and> ((l_images st' = l_images st \<and> l_thumbnails_added st' = l_thumbnails_added st)
               \<or> (l_thumbnails_added st < MAX_PAGE_THUMBNAILS (cfg e)
                   \<and> l_thumbnails_added st' = l_thumbnails_added st + 1
                   \<and> (\<exists>img. l_images st' = l_images st @ [img]
                         \<and> img_page img = Some (n + 1)
                         \<and> img_type img = Some ''page_thumbnail'')
                   \<and> (\<forall>b\<in>set (l_text_blocks st).
                         tb_page b = n + 1 \<longrightarrow> length (strip (tb_text b)) < 20)))"
  using assms
  by (auto simp add: pdf_page_thumbnail_def Let_def list_ex_iff
      split: if_splits option.splits)

lemma pdf_page_step_effect:
  assumes "pdf_page_step e n page st lg = (caught, st', lg')"
  shows "\<exists>new. l_text_blocks st' = l_text_blocks st @ new
           \<and> (\<forall>b\<in>set new. tb_page b = n + 1 \<and> strip (tb_text b) = tb_text b)
           \<and> ((l_images st' = l_images st \<and> l_thumbnails_added st' = l_thumbnails_added st)
               \<or> (l_thumbnails_added st < MAX_PAGE_THUMBNAILS (cfg e)
                   \<and> l_thumbnails_added st' = l_thumbnails_added st + 1
                   \<and> (\<exists>img. l_images st' = l_images st @ [img]
                         \<and> img_page img = Some (n + 1)
                         \<and> img_type img = Some ''page_thumbnail'')
                   \<and> (\<forall>b\<in>set (l_text_blocks st').
                         tb_page b = n + 1 \<longrightarrow> length (strip (tb_text b)) < 20)))"
proof (cases "pg_get_text page")
  case (Inl x)
  then show ?thesis using assms by (auto simp add: pdf_page_step_def)
next
  case (Inr page_text)
  let ?st1 = "(if strip page_text \<noteq> ''''
               then st\<lparr> l_text_blocks := l_text_blocks st @
                       [\<lparr> tb_text = strip page_text, tb_page = n + 1,
                          tb_confidence = 85/100, tb_type = ''paragraph'' \<rparr>] \<rparr>
               else st)"
  obtain tbs2 lg2 where o: "(if length (strip page_text) < 100
                    then ocr_page_images e n (pg_get_images page) (l_text_blocks ?st1) lg
                    else (l_text_blocks ?st1, lg)) = (tbs2, lg2)"
    by (metis surj_pair)
  let ?st2 = "?st1\<lparr> l_text_blocks := tbs2 \<rparr>"
  have t: "pdf_page_thumbnail e n page ?st2 lg2 = (st', lg')"
    using assms Inr o by (simp add: pdf_page_step_def Let_def split: prod.splits)
  have "\<exists>new1. l_text_blocks ?st1 = l_text_blocks st @ new1
           \<and> (\<forall>b\<in>set new1. tb_page b = n + 1 \<and> strip (tb_text b) = tb_text b)"
    by (simp add: strip_strip)
  then obtain new1 where n1: "l_text_blocks ?st1 = l_text_blocks st @ new1"
      "\<forall>b\<in>set new1. tb_page b = n + 1 \<and> strip (tb_text b) = tb_text b"
    by blast
  have "\<exists>new2. tbs2 = l_text_blocks ?st1 @ new2
           \<and> (\<forall>b\<in>set new2. tb_page b = n + 1 \<and> strip (tb_text b) = tb_text b)"
  proof (cases "length (strip page_text) < 100")
    case True
    then have "ocr_page_images e n (pg_get_images page) (l_text_blocks ?st1) lg = (tbs2, lg2)"
      using o by simp
    then show ?thesis by (rule ocr_page_images_blocks)
  next
    case False
    then have "tbs2 = l_text_blocks ?st1" using o by simp
    then show ?thesis by simp
  qed
  then obtain new2 where n2: "tbs2 = l_text_blocks ?st1 @ new2"
      "\<forall>b\<in>set new2. tb_page b = n + 1 \<and> strip (tb_text b) = tb_text b" by blast
  have b2: "l_text_blocks ?st2 = l_text_blocks st @ (new1 @ new2)"
    using n1 n2 by simp
  have b3: "\<forall>b\<in>set (new1 @ new2). tb_page b = n + 1 \<and> strip (tb_text b) = tb_text b"
    using n1 n2 by auto
  have im: "l_images ?st2 = l_images st" "l_thumbnails_added ?st2 = l_thumbnails_added st"
    by simp_all
  from pdf_page_thumbnail_effect [OF t]
  have eff: "l_text_blocks st' = l_text_blocks ?st2"
     "(l_images st' = l_images ?st2 \<and> l_thumbnails_added st' = l_thumbnails_added ?st2)
               \<or> (l_thumbnails_added ?st2 < MAX_PAGE_THUMBNAILS (cfg e)
                   \<and> l_thumbnails_added st' = l_thumbnails_added ?st2 + 1
                   \<and> (\<exists>img. l_images st' = l_images ?st2 @ [img]
                         \<and> img_page img = Some (n + 1)
                         \<and> img_type img = Some ''page_thumbnail'')
                   \<and> (\<forall>b\<in>set (l_text_blocks ?st2).
                         tb_page b = n + 1 \<longrightarrow> length (strip (tb_text b)) < 20))"
    by blast+
  have "l_text_blocks st' = l_text_blocks st @ (new1 @ new2)"
    using eff(1) b2 by simp
  moreover have "(l_images st' = l_images st \<and> l_thumbnails_added st' = l_thumbnails_added st)
               \<or> (l_thumbnails_added st < MAX_PAGE_THUMBNAILS (cfg e)
                   \<and> l_thumbnails_added st' = l_thumbnails_added st + 1
                   \<and> (\<exists>img. l_images st' = l_images st @ [img]
                         \<and> img_page img = Some (n + 1)
                         \<and> img_type img = Some ''page_thumbnail'')
                   \<and> (\<forall>b\<in>set (l_text_blocks st').
                         tb_page b = n + 1 \<longrightarrow> length (strip (tb_text b)) < 20))"
    using eff(2) unfolding eff(1) im .
  ultimately show ?thesis using b3 by blast
qed

lemma thumbs_inv_step:
  assumes inv: "thumbs_inv e n st"
    and step: "pdf_page_step e n page st lg = (caught, st', lg')"
  shows "thumbs_inv e (n + 1) st'"
proof -
  from pdf_page_step_effect [OF step] obtain new where
    blocks: "l_text_blocks st' = l_text_blocks st @ new"
    and new: "\<forall>b\<in>set new. tb_page b = n + 1 \<and> strip (tb_text b) = tb_text b"
    and imgs: "(l_images st' = l_images st \<and> l_thumbnails_added st' = l_thumbnails_added st)
               \<or> (l_thumbnails_added st < MAX_PAGE_THUMBNAILS (cfg e)
                   \<and> l_thumbnails_added st' = l_thumbnails_added st + 1
                   \<and> (\<exists>img. l_images st' = l_images st @ [img]
                         \<and> img_page img = Some (n + 1)
                         \<and> img_type img = Some ''page_thumbnail'')
                   \<and> (\<forall>b\<in>set (l_text_blocks st').
                         tb_page b = n + 1 \<longrightarrow> length (strip (tb_text b)) < 20))"
    by blast
  have old_blocks: "\<forall>b\<in>set (l_text_blocks st). tb_page b \<le> n \<and> strip (tb_text b) = tb_text b"
    using inv by (simp add: thumbs_inv_def)
  have a: "\<forall>b\<in>set (l_text_blocks st'). tb_page b \<le> n + 1 \<and> strip (tb_text b) = tb_text b"
    using old_blocks new blocks by auto
  have old_imgs: "\<forall>img\<in>set (l_images st). img_type img = Some ''page_thumbnail''
            \<and> (\<exists>p. img_page img = Some p \<and> p \<le> n + 1
                  \<and> (\<forall>b\<in>set (l_text_blocks st'). tb_page b = p \<longrightarrow> length (tb_text b) < 20))"
  proof
    fix img assume "img \<in> set (l_images st)"
    then obtain p where p: "img_type img = Some ''page_thumbnail''" "img_page img = Some p"
      "p \<le> n" "\<forall>b\<in>set (l_text_blocks st). tb_page b = p \<longrightarrow> length (tb_text b) < 20"
      using inv by (auto simp add: thumbs_inv_def)
    have "\<forall>b\<in>set (l_text_blocks st'). tb_page b = p \<longrightarrow> length (tb_text b) < 20"
      using p new blocks by auto
    then show "img_type img = Some ''page_thumbnail''
            \<and> (\<exists>p. img_page img = Some p \<and> p \<le> n + 1
                  \<and> (\<forall>b\<in>set (l_text_blocks st'). tb_page b = p \<longrightarrow> length (tb_text b) < 20))"
      using p by auto
  qed
  have cnt: "int (length (l_images st)) = l_thumbnails_added st"
    "l_thumbnails_added st \<le> max 0 (MAX_PAGE_THUMBNAILS (cfg e))"
    using inv by (simp_all add: thumbs_inv_def)
  from imgs show ?thesis
  proof
    assume "l_images st' = l_images st \<and> l_thumbnails_added st' = l_thumbnails_added st"
    then show ?thesis using a old_imgs cnt by (simp add: thumbs_inv_def)
  next
    assume h: "l_thumbnails_added st < MAX_PAGE_THUMBNAILS (cfg e)
                   \<and> l_thumbnails_added st' = l_thumbnails_added st + 1
                   \<and> (\<exists>img. l_images st' = l_images st @ [img]
                         \<and> img_page img = Some (n + 1)
                         \<and> img_type img = Some ''page_thumbnail'')
                   \<and> (\<forall>b\<in>set (l_text_blocks st').
                         tb_page b = n + 1 \<longrightarrow> length (strip (tb_text b)) < 20)"
    then obtain img where img: "l_images st' = l_images st @ [img]"
      "img_page img = Some (n + 1)" "img_type img = Some ''page_thumbnail''"
      by blast
    have "\<forall>b\<in>set (l_text_blocks st'). tb_page b = n + 1 \<longrightarrow> length (tb_text b) < 20"
      using h a by auto
    then have "\<forall>i\<in>set (l_images st'). img_type i = Some ''page_thumbnail''
            \<and> (\<exists>p. img_page i = Some p \<and> p \<le> n + 1
                  \<and> (\<forall>b\<in>set (l_text_blocks st'). tb_page b = p \<longrightarrow> length (tb_text b) < 20))"
      using old_imgs img by auto
    moreover have "int (length (l_images st')) = l_thumbnails_added st'"
      "l_thumbnails_added st' \<le> max 0 (MAX_PAGE_THUMBNAILS (cfg e))"
      using h img cnt by simp_all
    ultimately show ?thesis using a by (simp add: thumbs_inv_def)
  qed
qed

lemma thumbs_inv_loop:
  "thumbs_inv e n st \<Longrightarrow> pdf_pages_loop e n pages st lg = (caught, st', lg')
     \<Longrightarrow> \<exists>m. thumbs_inv e m st'"
proof (induction pages arbitrary: n st lg)
  case Nil
  then show ?case by auto
next
  case (Cons page pages)
  obtain c1 st1 lg1 where s: "pdf_page_step e n page st lg = (c1, st1, lg1)"
    by (metis prod_cases3)
  have i1: "thumbs_inv e (n + 1) st1"
    using Cons.prems(1) s by (rule thumbs_inv_step)
  show ?case
  proof (cases c1)
    case None
    then have "pdf_pages_loop e (n + 1) pages st1 lg1 = (caught, st', lg')"
      using Cons.prems(2) s by simp
    from Cons.IH [OF i1 this] show ?thesis .
  next
    case (Some x)
    then have "st' = st1" using Cons.prems(2) s by simp
    then show ?thesis using i1 by blast
  qed
qed

lemma pdf_ocr_loop_images:
  "pdf_ocr_loop e n pages st lg = (caught, st', lg') \<Longrightarrow> l_images st' = l_images st"
proof (induction pages arbitrary: n st lg)
  case Nil
  then show ?case by simp
next
  case (Cons page pages)
  show ?case
  proof (cases "pg_get_pixmap page")
    case (Inl x)
    then show ?thesis using Cons.prems by simp
  next
    case (Inr img_data)
    obtain res lg1 where o: "ocr_image e img_data lg = (res, lg1)"
      by (metis surj_pair)
    show ?thesis
    proof (cases "\<exists>t. res = Inr (Some t) \<and> t \<noteq> ''''")
      case True
      then obtain t where t: "res = Inr (Some t)" "t \<noteq> ''''" by blast
      from Cons.prems Inr o t
      have "pdf_ocr_loop e (n + 1) pages
              (st\<lparr> l_text_blocks := l_text_blocks st @
                     [\<lparr> tb_text = t, tb_page = n + 1, tb_confidence = 6/10,
                        tb_type = ''page_ocr'' \<rparr>] \<rparr>) lg1 = (caught, st', lg')"
        by simp
      from Cons.IH [OF this] show ?thesis by simp
    next
      case False
      show ?thesis
      proof (cases res)
        case (Inl x)
        then show ?thesis using Cons.prems Inr o by simp
      next
        case r: (Inr v)
        with False Cons.prems Inr o
        have "pdf_ocr_loop e (n + 1) pages st lg1 = (caught, st', lg')"
          by (auto split: option.splits if_splits)
        from Cons.IH [OF this] show ?thesis .
      qed
    qed
  qed
qed

lemma thumbs_inv_bound:
  "thumbs_inv e m st \<Longrightarrow> length (l_images st) \<le> nat (MAX_PAGE_THUMBNAILS (cfg e))"
  by (auto simp add: thumbs_inv_def)

lemma thumbs_inv_init:
  "l_text_blocks st = [] \<Longrightarrow> l_images st = [] \<Longrightarrow> l_thumbnails_added st = 0
     \<Longrightarrow> thumbs_inv e 0 st"
  by (simp add: thumbs_inv_def)

lemma pymupdf_images_bound:
  assumes "pymupdf_extraction e file_buffer pdf_locals_init lg = (caught, st, lg')"
  shows "length (l_images st) \<le> nat (MAX_PAGE_THUMBNAILS (cfg e))"
proof (cases "fitz_open (rdr e) file_buffer")
  case (Inl x)
  then show ?thesis using assms by (auto simp add: pymupdf_extraction_def pdf_locals_init_def)
next
  case (Inr doc)
  let ?st1 = "pdf_locals_init\<lparr> l_page_count := (if int (length doc) \<noteq> 0 then int (length doc) else 1),
                       l_thumbnails_added := 0 \<rparr>"
  obtain c2 st2 lg2 where l: "pdf_pages_loop e 0 doc ?st1 (lg @ [FitzOpen]) = (c2, st2, lg2)"
    by (metis prod_cases3)
  have "thumbs_inv e 0 ?st1"
    by (rule thumbs_inv_init) (simp_all add: pdf_locals_init_def)
  then obtain m where "thumbs_inv e m st2"
    using l thumbs_inv_loop by blast
  then have b: "length (l_images st2) \<le> nat (MAX_PAGE_THUMBNAILS (cfg e))"
    by (rule thumbs_inv_bound)
  have "l_images st = l_images st2"
    using assms Inr l
    by (auto simp add: pymupdf_extraction_def Let_def dest: pdf_ocr_loop_images
        split: option.splits if_splits prod.splits)
  then show ?thesis using b by simp
qed

lemma extract_pdf_images_bound:
  assumes h: "extract_pdf e file_buffer lg = (Inr r, lg')"
  shows "length (get_default (r_images r) []) \<le> nat (MAX_PAGE_THUMBNAILS (cfg e))"
proof -
  obtain res lg1 where t: "try_document_ai e file_buffer lg = (res, lg1)"
    by (metis surj_pair)
  show ?thesis
  proof (cases res)
    case None
    obtain c st1 lg3 where p: "pymupdf_extraction e file_buffer pdf_locals_init lg1 = (c, st1, lg3)"
      by (metis prod_cases3)
    then have "length (l_images st1) \<le> nat (MAX_PAGE_THUMBNAILS (cfg e))"
      by (rule pymupdf_images_bound)
    moreover have "r_images r = Some (l_images st1)"
      using h t None p by (auto simp add: extract_pdf_def)
    ultimately show ?thesis by (simp add: get_default_def)
  next
    case (Some result)
    then have "r = result" using h t by (simp add: extract_pdf_def)
    moreover have "r_images result = Some []"
      using t Some
      by (auto simp add: try_document_ai_def extract_pdf_with_document_ai_def Let_def
          split: if_splits sum.splits prod.splits)
    ultimately show ?thesis by (simp add: get_default_def)
  qed
qed

lemma pdf_pages_loop_thumbnails:
  assumes h: "l_text_blocks st0 = [] \<and> l_images st0 = [] \<and> l_thumbnails_added st0 = 0
        \<and> pdf_pages_loop e 0 doc st0 lg = (caught, st, lg2)"
  shows "length (l_images st) \<le> nat (MAX_PAGE_THUMBNAILS (cfg e))
          \<and> (\<forall>img\<in>set (l_images st). img_type img = Some ''page_thumbnail''
                \<and> (\<exists>p. img_page img = Some p
                      \<and> (\<forall>b\<in>set (l_text_blocks st).
                            tb_page b = p \<longrightarrow> length (tb_text b) < 20)))"
proof -
  from h have "thumbs_inv e 0 st0" by (simp add: thumbs_inv_init)
  then obtain m where m: "thumbs_inv e m st"
    using h thumbs_inv_loop by blast
  then have "length (l_images st) \<le> nat (MAX_PAGE_THUMBNAILS (cfg e))"
    by (rule thumbs_inv_bound)
  moreover have "\<forall>img\<in>set (l_images st). img_type img = Some ''page_thumbnail''
                \<and> (\<exists>p. img_page img = Some p
                      \<and> (\<forall>b\<in>set (l_text_blocks st).
                            tb_page b = p \<longrightarrow> length (tb_text b) < 20))"
    using m by (auto simp add: thumbs_inv_def)
  ultimately show ?thesis by blast
qed

text \<open>
  Claim C8. Whatever the number of pages, the images of a result of the PDF extractor are
  at most \<^verbatim>\<open>MAX_PAGE_THUMBNAILS\<close> (none when this maximum is not positive). In
  the local pass over the pages, entered with no block and no image, the images are at any
  moment at most as many, each is a page thumbnail, and the page of each has no block of
  20 or more characters among the blocks collected by the pass.
\<close>

theorem thumbnails_bounded_and_for_textless_pages:
  "(extract_pdf e file_buffer lg = (Inr r, lg')
      \<longrightarrow> length (get_default (r_images r) []) \<le> nat (MAX_PAGE_THUMBNAILS (cfg e)))
   \<and> (l_text_blocks st0 = [] \<and> l_images st0 = [] \<and> l_thumbnails_added st0 = 0
        \<and> pdf_pages_loop e 0 doc st0 lg = (caught, st, lg2)
      \<longrightarrow> length (l_images st) \<le> nat (MAX_PAGE_THUMBNAILS (cfg e))
          \<and> (\<forall>img\<in>set (l_images st). img_type img = Some ''page_thumbnail''
                \<and> (\<exists>p. img_page img = Some p
                      \<and> (\<forall>b\<in>set (l_text_blocks st).
                            tb_page b = p \<longrightarrow> length (tb_text b) < 20))))"
proof (rule conjI)
  show "extract_pdf e file_buffer lg = (Inr r, lg')
      \<longrightarrow> length (get_default (r_images r) []) \<le> nat (MAX_PAGE_THUMBNAILS (cfg e))"
    by (rule impI) (rule extract_pdf_images_bound)
  show "l_text_blocks st0 = [] \<and> l_images st0 = [] \<and> l_thumbnails_added st0 = 0
        \<and> pdf_pages_loop e 0 doc st0 lg = (caught, st, lg2)
      \<longrightarrow> length (l_images st) \<le> nat (MAX_PAGE_THUMBNAILS (cfg e))
          \<and> (\<forall>img\<in>set (l_images st). img_type img = Some ''page_thumbnail''
                \<and> (\<exists>p. img_page img = Some p
                      \<and> (\<forall>b\<in>set (l_text_blocks st).
                            tb_page b = p \<longrightarrow> length (tb_text b) < 20)))"
    by (rule impI) (rule pdf_pages_loop_thumbnails)
qed

text \<open>
  A PDF whose first page has a line of text and whose second page is blank gets one
  thumbnail, of page 2. With a maximum of one, a PDF of two blank pages gets one thumbnail.
\<close>

theorem thumbnails_bounded_and_for_textless_pages_witness:
  "extract_pdf env_files ''%PDF'' []
     = (Inr result_pdf_sample, [FitzOpen, Thumbnail, FitzOpen, Vision, Vision])
   \<and> r_images result_pdf_sample = Some [thumbnail_sample 2]
   \<and> length (get_default (r_images result_pdf_sample) []) \<le> nat (MAX_PAGE_THUMBNAILS (cfg env_files))
   \<and> MAX_PAGE_THUMBNAILS (cfg env_cap) = 1
   \<and> fitz_open (rdr env_cap) ''%PDF'' = Inr [pdf_page_blank, pdf_page_blank]
   \<and> extract_pdf env_cap ''%PDF'' []
     = (Inr result_pdf_cap, [FitzOpen, Thumbnail, FitzOpen, Vision, Vision])
   \<and> r_images result_pdf_cap = Some [thumbnail_sample 1]
   \<and> length (get_default (r_images result_pdf_cap) []) \<le> nat (MAX_PAGE_THUMBNAILS (cfg env_cap))
   \<and> pdf_pages_loop env_files 0 [pdf_page_text, pdf_page_blank] pdf_locals_init []
     = (None, locals_pdf_loop, [Thumbnail])
   \<and> l_images locals_pdf_loop = [thumbnail_sample 2]
   \<and> l_text_blocks locals_pdf_loop = [block_report]
   \<and> img_type (thumbnail_sample 2) = Some ''page_thumbnail''
   \<and> (\<exists>p. img_page (thumbnail_sample 2) = Some p
          \<and> (\<forall>b\<in>set (l_text_blocks locals_pdf_loop). tb_page b = p \<longrightarrow> length (tb_text b) < 20))"
proof -
  note t = thumbnails_bounded_and_for_textless_pages
  have a: "length (get_default (r_images result_pdf_sample) [])
             \<le> nat (MAX_PAGE_THUMBNAILS (cfg env_files))"
    using t [where e = env_files and file_buffer = "''%PDF''" and lg = "[]"
                 and r = result_pdf_sample] sample_runs(1) by blast
  have b: "length (get_default (r_images result_pdf_cap) [])
             \<le> nat (MAX_PAGE_THUMBNAILS (cfg env_cap))"
    using t [where e = env_cap and file_buffer = "''%PDF''" and lg = "[]"
                 and r = result_pdf_cap] sample_runs(2) by blast
  have i: "l_text_blocks pdf_locals_init = [] \<and> l_images pdf_locals_init = []
            \<and> l_thumbnails_added pdf_locals_init = 0"
    by (simp add: pdf_locals_init_def)
  have s: "l_images locals_pdf_loop = [thumbnail_sample 2]"
    "l_text_blocks locals_pdf_loop = [block_report]"
    "r_images result_pdf_sample = Some [thumbnail_sample 2]"
    "r_images result_pdf_cap = Some [thumbnail_sample 1]"
    "MAX_PAGE_THUMBNAILS (cfg env_cap) = 1"
    "fitz_open (rdr env_cap) ''%PDF'' = Inr [pdf_page_blank, pdf_page_blank]"
    by (simp_all add: locals_pdf_loop_def result_pdf_sample_def result_pdf_cap_def env_cap_def)
  have c: "\<forall>img\<in>set (l_images locals_pdf_loop). img_type img = Some ''page_thumbnail''
             \<and> (\<exists>p. img_page img = Some p
                   \<and> (\<forall>b\<in>set (l_text_blocks locals_pdf_loop).
                         tb_page b = p \<longrightarrow> length (tb_text b) < 20))"
    using t [where e = env_files and lg = "[]" and ?st0.0 = pdf_locals_init
                 and doc = "[pdf_page_text, pdf_page_blank]" and caught = None
                 and st = locals_pdf_loop and ?lg2.0 = "[Thumbnail]"]
      i sample_runs(3)
    by blast
  then have d: "img_type (thumbnail_sample 2) = Some ''page_thumbnail''
     \<and> (\<exists>p. img_page (thumbnail_sample 2) = Some p
          \<and> (\<forall>b\<in>set (l_text_blocks locals_pdf_loop). tb_page b = p \<longrightarrow> length (tb_text b) < 20))"
    using s(1) by simp
  show ?thesis
    using a b d s sample_runs(1,2,3) by blast
qed

end
